theory Spec2Isabelle
  imports Main
begin

section \<open>Data model\<close>

text \<open>
  The theory embeds \<^verbatim>\<open>backend/feddersen/util/knowledge_manager.py\<close>: the class
  \<^verbatim>\<open>KnowledgeManager\<close>, a client of a remote knowledge store. Python strings are
  \<^typ>\<open>string\<close>, \<^verbatim>\<open>None\<close>-able values are options, and a value is falsy when it is
  \<^verbatim>\<open>None\<close> or the empty string.

  Modelled from the spec: the module \<^verbatim>\<open>feddersen.models\<close> (the classes
  \<^verbatim>\<open>ExtraMetadata\<close>, \<^verbatim>\<open>ItemMetadata\<close>, \<^verbatim>\<open>ItemPermissions\<close>) is imported by the source
  but is not among the source files. Section 3 of the spec gives their fields:
  \<^verbatim>\<open>ExtraMetadata = {auth: (users, groups), metadata: {title, url, context_url, date, source}}\<close>.
  The url is an option here so that a missing url (\<^verbatim>\<open>None\<close>) and an empty one are both
  values of the model; the nested \<^verbatim>\<open>metadata\<close> object is always present, so the source's
  test \<^verbatim>\<open>if item_meta\<close> is true of every value of the model.
\<close>

type_synonym json = string

record ItemPermissions =
  users :: "string list"
  groups :: "string list"

record ItemMetadata =
  title :: string
  url :: "string option"
  context_url :: "string option"
  date :: string
  source :: string

record ExtraMetadata =
  auth :: ItemPermissions
  metadata :: ItemMetadata

text \<open>
  \<^verbatim>\<open>FileMetadataResponse\<close> of the source (its field \<^verbatim>\<open>id\<close> is \<open>id_f\<close> here, since
  \<open>id\<close> is the identity function of HOL). The source reads the dictionary \<^verbatim>\<open>meta\<close> in
  one way only: \<^verbatim>\<open>meta.get(EXTRA_MIDDLEWARE_METADATA_KEY)\<close>, validated as an
  \<^verbatim>\<open>ExtraMetadata\<close>. The field \<open>meta\<close> is that view: \<open>None\<close> when the dictionary is
  empty, lacks the key or holds a falsy value under it.
\<close>

record FileMetadataResponse =
  id_f :: string
  meta :: "ExtraMetadata option"
  created_at :: int
  updated_at :: int

text \<open>One entry of the list that \<^verbatim>\<open>GET /knowledge/\<close> returns, read with
  \<^verbatim>\<open>kb.get("id")\<close> and \<^verbatim>\<open>kb.get("name")\<close>.\<close>

record knowledge_entry =
  kb_id :: "string option"
  kb_name :: "string option"

text \<open>
  The values the result dictionaries hold. A dictionary is an association list in the
  order the source writes its keys; \<open>map_of\<close> is \<^verbatim>\<open>dict.get\<close>. The body of a reply
  that the source passes on unread (\<^verbatim>\<open>await response.json()\<close>) is \<open>PJson\<close> of the
  body's text.
\<close>

datatype pyval =
    PNone
  | PBool bool
  | PStr string
  | PJson json
  | PDict "(string \<times> pyval) list"

type_synonym pydict = "(string \<times> pyval) list"

datatype py_error = TypeError | ValueError | IndexError

datatype level = WARNING | ERROR

section \<open>The remote store and the state of a run\<close>

text \<open>
  The requests the source sends, one constructor per endpoint:
  \<^item> \<open>ListKnowledge\<close>: \<^verbatim>\<open>GET /knowledge/\<close>;
  \<^item> \<open>CreateKnowledge name description data access_control\<close>: \<^verbatim>\<open>POST /knowledge/create\<close>;
  \<^item> \<open>GetKnowledge id\<close>: \<^verbatim>\<open>GET /knowledge/{id}\<close>;
  \<^item> \<open>UploadFile path metadata\<close>: \<^verbatim>\<open>POST /files/\<close> with the file read from \<open>path\<close>;
  \<^item> \<open>AddFile id file_id\<close>: \<^verbatim>\<open>POST /knowledge/{id}/file/add\<close>;
  \<^item> \<open>BatchAddFiles id file_ids\<close>: \<^verbatim>\<open>POST /knowledge/{id}/files/batch/add\<close>;
  \<^item> \<open>RemoveFile id file_id\<close>: \<^verbatim>\<open>POST /knowledge/{id}/file/remove\<close>.

  A reply has the status and the body. The source reads a body as text
  (\<open>body_text\<close>), as an object with an \<^verbatim>\<open>id\<close> (\<open>body_id\<close> is
  \<^verbatim>\<open>result.get("id")\<close>), as a list of knowledge bases (\<open>body_kbs\<close>) or as a
  \<^verbatim>\<open>KnowledgeResponse\<close> (\<open>body_files\<close> is its \<^verbatim>\<open>files\<close>); each endpoint reads one
  of these views.
\<close>

datatype request =
    ListKnowledge
  | CreateKnowledge string string json json
  | GetKnowledge string
  | UploadFile string "ExtraMetadata option"
  | AddFile string string
  | BatchAddFiles string "string list"
  | RemoveFile string string

record reply =
  status :: nat
  body_text :: string
  body_id :: "string option"
  body_kbs :: "knowledge_entry list"
  body_files :: "FileMetadataResponse list"

text \<open>
  The remote store is a parameter of every operation: \<open>serve\<close> answers a request in
  a state \<open>'w\<close> of the store and gives the store's next state, \<open>path_exists\<close> is the
  local file system (\<^verbatim>\<open>Path(file_path).exists()\<close>). A run threads a \<open>state\<close>: the
  store, the requests sent so far with their replies, and the records logged so far.
\<close>

record 'w remote =
  serve :: "request \<Rightarrow> 'w \<Rightarrow> reply \<times> 'w"
  path_exists :: "string \<Rightarrow> bool"

record 'w state =
  world :: 'w
  calls :: "(request \<times> reply) list"
  logs :: "(level \<times> string) list"

definition send :: "'w remote \<Rightarrow> request \<Rightarrow> 'w state \<Rightarrow> reply \<times> 'w state" where
  "send env rq s =
     (let (rp, w) = serve env rq (world s)
      in (rp, s\<lparr>world := w, calls := calls s @ [(rq, rp)]\<rparr>))"

definition log_record :: "level \<Rightarrow> string \<Rightarrow> 'w state \<Rightarrow> 'w state" where
  "log_record lv msg s = s\<lparr>logs := logs s @ [(lv, msg)]\<rparr>"

section \<open>Removing files\<close>

text \<open>\<^verbatim>\<open>remove_files\<close>: one request per file id, one result dictionary per file id.\<close>

fun remove_files :: "'w remote \<Rightarrow> string \<Rightarrow> string list \<Rightarrow> 'w state \<Rightarrow> pydict list \<times> 'w state" where
  "remove_files env knowledge_id [] s = ([], s)"
| "remove_files env knowledge_id (file_id # file_ids) s =
     (let (response, s1) = send env (RemoveFile knowledge_id file_id) s;
          (r, s2) =
            (if status response \<noteq> 200
             then ([(''file_id'', PStr file_id), (''success'', PBool False),
                    (''error'', PStr (body_text response))],
                   log_record ERROR (''Failed to remove file ID '' @ file_id @ '', response: ''
                     @ body_text response) s1)
             else ([(''file_id'', PStr file_id), (''success'', PBool True),
                    (''result'', PJson (body_text response))], s1));
          (results, s3) = remove_files env knowledge_id file_ids s2
      in (r # results, s3))"

section \<open>Truth of values, construction\<close>

text \<open>Python's truth test on an optional string: \<^verbatim>\<open>None\<close> and \<^verbatim>\<open>""\<close> are falsy.\<close>

definition truthy :: "string option \<Rightarrow> bool" where
  "truthy v = (case v of None \<Rightarrow> False | Some x \<Rightarrow> x \<noteq> [])"

text \<open>
  The truth test on a value of a dictionary. The source applies it to the value under
  \<^verbatim>\<open>success\<close> only, which it always writes as a bool; a body passed on unread counts
  as true when its text is not empty.
\<close>

fun truthy_val :: "pyval \<Rightarrow> bool" where
  "truthy_val PNone = False"
| "truthy_val (PBool b) = b"
| "truthy_val (PStr x) = (x \<noteq> [])"
| "truthy_val (PJson j) = (j \<noteq> [])"
| "truthy_val (PDict d) = (d \<noteq> [])"

definition opt_val :: "string option \<Rightarrow> pyval" where
  "opt_val v = (case v of None \<Rightarrow> PNone | Some x \<Rightarrow> PStr x)"

text \<open>How an f-string prints an optional string.\<close>

definition opt_str :: "string option \<Rightarrow> string" where
  "opt_str v = (case v of None \<Rightarrow> ''None'' | Some x \<Rightarrow> x)"

definition endswith :: "string \<Rightarrow> string \<Rightarrow> bool" where
  "endswith x suf = (length suf \<le> length x \<and> drop (length x - length suf) x = suf)"

text \<open>\<^verbatim>\<open>str.strip("/")\<close>: the slashes at both ends are dropped.\<close>

definition strip_slashes :: "string \<Rightarrow> string" where
  "strip_slashes x =
     rev (dropWhile (\<lambda>c. c = CHR ''/'') (rev (dropWhile (\<lambda>c. c = CHR ''/'') x)))"

record KnowledgeManager =
  base_url :: string
  api_key :: string
  batch_size :: int
  headers :: "(string \<times> string) list"

text \<open>
  \<^verbatim>\<open>KnowledgeManager.__init__(base_url, api_key, batch_size)\<close>, with \<^verbatim>\<open>os.environ\<close> as
  a map. The only \<^verbatim>\<open>raise\<close> of the constructor is the \<^verbatim>\<open>ValueError\<close> for a missing API
  key; \<^verbatim>\<open>batch_size\<close> is stored as it is given.
\<close>

definition init :: "string option \<Rightarrow> string option \<Rightarrow> int \<Rightarrow> (string \<Rightarrow> string option)
    \<Rightarrow> py_error + KnowledgeManager" where
  "init base_url_arg api_key_arg batch_size_arg environ =
     (let b0 = (case (if truthy base_url_arg then base_url_arg else None) of
                  Some b \<Rightarrow> b
                | None \<Rightarrow> (case environ ''OPEN_WEBUI_URL'' of
                             Some b \<Rightarrow> b
                           | None \<Rightarrow> ''http://localhost:8080''));
          b1 = (if \<not> endswith b0 ''/api/v1'' then strip_slashes b0 @ ''/api/v1'' else b0);
          k = (if truthy api_key_arg then api_key_arg else environ ''OPEN_WEBUI_API_KEY'')
      in case (if truthy k then k else None) of
           None \<Rightarrow> Inl ValueError
         | Some key \<Rightarrow>
             Inr \<lparr>base_url = b1, api_key = key, batch_size = batch_size_arg,
                  headers = [(''Authorization'', ''Bearer '' @ key)]\<rparr>)"

section \<open>Knowledge bases\<close>

text \<open>\<^verbatim>\<open>data or {}\<close>: an absent dictionary is sent as the empty one.\<close>

definition or_empty :: "json option \<Rightarrow> json" where
  "or_empty d = (case d of None \<Rightarrow> ''{}'' | Some j \<Rightarrow> j)"

text \<open>
  \<^verbatim>\<open>create_knowledge_if_not_exists\<close>. The loop over the listed knowledge bases returns
  at the first whose name is the requested one, which is \<open>find\<close>; the list is read
  only when the status of the reply is 200.
\<close>

definition create_knowledge_if_not_exists ::
    "'w remote \<Rightarrow> string \<Rightarrow> string \<Rightarrow> json option \<Rightarrow> json option \<Rightarrow> 'w state
      \<Rightarrow> string option \<times> 'w state" where
  "create_knowledge_if_not_exists env name description data access_control s =
     (let (response, s1) = send env ListKnowledge s
      in case (if status response = 200
               then find (\<lambda>kb. kb_name kb = Some name) (body_kbs response) else None) of
           Some kb \<Rightarrow> (kb_id kb, s1)
         | None \<Rightarrow>
             (let (response2, s2) =
                    send env (CreateKnowledge name description (or_empty data)
                      (or_empty access_control)) s1
              in if status response2 \<noteq> 200
                 then (None, log_record ERROR
                         (''Failed to create knowledge base, response: '' @ body_text response2) s2)
                 else if \<not> truthy (body_id response2)
                 then (None, log_record ERROR
                         (''Failed to get knowledge base ID from response: ''
                            @ body_text response2) s2)
                 else (body_id response2, s2)))"

text \<open>\<^verbatim>\<open>_retrieve_files_in_knowledge\<close>: the files of a knowledge base, or the empty
  list when the request fails.\<close>

definition retrieve_files_in_knowledge ::
    "'w remote \<Rightarrow> string \<Rightarrow> 'w state \<Rightarrow> FileMetadataResponse list \<times> 'w state" where
  "retrieve_files_in_knowledge env knowledge_id s =
     (let (response, s1) = send env (GetKnowledge knowledge_id) s
      in if status response \<noteq> 200
         then ([], log_record ERROR
                 (''Failed to get knowledge base files, response: '' @ body_text response) s1)
         else (body_files response, s1))"

section \<open>Uploading\<close>

text \<open>\<^verbatim>\<open>_send_file\<close>: the id of the uploaded file, or \<^verbatim>\<open>None\<close> when the local file
  is missing, the upload is refused or the reply has no id.\<close>

definition send_file ::
    "'w remote \<Rightarrow> string \<Rightarrow> ExtraMetadata option \<Rightarrow> 'w state \<Rightarrow> string option \<times> 'w state" where
  "send_file env file_path md s =
     (if \<not> path_exists env file_path
      then (None, log_record ERROR (''File not found: '' @ file_path) s)
      else (let (response, s1) = send env (UploadFile file_path md) s
            in if status response \<noteq> 200
               then (None, log_record ERROR
                       (''Failed to upload file: '' @ file_path @ '', response: ''
                          @ body_text response) s1)
               else if \<not> truthy (body_id response)
               then (None, log_record ERROR (''Failed to get file ID for: '' @ file_path) s1)
               else (body_id response, s1)))"

text \<open>
  \<^verbatim>\<open>_upload_files_batch\<close>. The loop builds one task per path with
  \<^verbatim>\<open>metadata[i] if metadata else None\<close> (an index out of range raises before any
  upload starts); \<^verbatim>\<open>asyncio.gather\<close> then runs the tasks and returns their results in
  the order of the tasks. The model runs them one after the other in that order, which
  is the order in which the tasks send their requests; the ids that are \<^verbatim>\<open>None\<close> are
  filtered out.
\<close>

fun upload_tasks :: "string list \<Rightarrow> ExtraMetadata list \<Rightarrow> nat
    \<Rightarrow> py_error + (string \<times> ExtraMetadata option) list" where
  "upload_tasks [] mds i = Inr []"
| "upload_tasks (file_path # file_paths) mds i =
     (if mds \<noteq> [] \<and> length mds \<le> i then Inl IndexError
      else (case upload_tasks file_paths mds (Suc i) of
              Inl e \<Rightarrow> Inl e
            | Inr tasks \<Rightarrow>
                Inr ((file_path, if mds \<noteq> [] then Some (mds ! i) else None) # tasks)))"

fun gather :: "'w remote \<Rightarrow> (string \<times> ExtraMetadata option) list \<Rightarrow> 'w state
    \<Rightarrow> string option list \<times> 'w state" where
  "gather env [] s = ([], s)"
| "gather env ((file_path, md) # tasks) s =
     (let (file_id, s1) = send_file env file_path md s;
          (file_ids, s2) = gather env tasks s1
      in (file_id # file_ids, s2))"

definition upload_files_batch ::
    "'w remote \<Rightarrow> string list \<Rightarrow> ExtraMetadata list \<Rightarrow> 'w state
      \<Rightarrow> (py_error + string list) \<times> 'w state" where
  "upload_files_batch env file_paths mds s =
     (case upload_tasks file_paths mds 0 of
        Inl e \<Rightarrow> (Inl e, s)
      | Inr tasks \<Rightarrow>
          (let (file_ids, s1) = gather env tasks s
           in (Inr (map the (filter truthy file_ids)), s1)))"

text \<open>\<^verbatim>\<open>_add_files_to_kb_batch\<close>: one request for the whole batch, one result
  dictionary per file id.\<close>

definition add_files_to_kb_batch ::
    "'w remote \<Rightarrow> string \<Rightarrow> string list \<Rightarrow> 'w state \<Rightarrow> pydict list \<times> 'w state" where
  "add_files_to_kb_batch env knowledge_id file_ids s =
     (if file_ids = [] then ([], s)
      else (let (response, s1) = send env (BatchAddFiles knowledge_id file_ids) s
            in if status response \<noteq> 200
               then (map (\<lambda>file_id.
                            [(''file_id'', PStr file_id), (''success'', PBool False),
                             (''error'', PStr (''Batch operation failed: '' @ body_text response))])
                       file_ids,
                     log_record ERROR
                       (''Failed to batch add files to knowledge base, response: ''
                          @ body_text response) s1)
               else (map (\<lambda>file_id.
                            [(''success'', PBool True),
                             (''result'', PDict [(''id'', PStr file_id),
                                (''batch_result'', PJson (body_text response))])])
                       file_ids, s1)))"

text \<open>\<^verbatim>\<open>_upload_file_and_add_to_kb\<close>: the one-file path that \<^verbatim>\<open>update_files\<close> uses.\<close>

definition upload_file_and_add_to_kb ::
    "'w remote \<Rightarrow> string \<Rightarrow> ExtraMetadata \<Rightarrow> string \<Rightarrow> 'w state \<Rightarrow> pydict \<times> 'w state" where
  "upload_file_and_add_to_kb env file_path md knowledge_id s =
     (let (file_id, s1) = send_file env file_path (Some md) s
      in case (if truthy file_id then file_id else None) of
           None \<Rightarrow> ([(''success'', PBool False), (''error'', PStr ''Failed to upload file'')], s1)
         | Some fid \<Rightarrow>
             (let (response, s2) = send env (AddFile knowledge_id fid) s1
              in if status response \<noteq> 200
                 then ([(''success'', PBool False), (''error'', PStr (body_text response))],
                       log_record ERROR
                         (''Failed to add file to knowledge base: '' @ file_path
                            @ '', response: '' @ body_text response) s2)
                 else ([(''success'', PBool True), (''result'', PJson (body_text response))],
                       s2)))"

section \<open>Updating files\<close>

text \<open>\<^verbatim>\<open>_get_item_url_of_file\<close>: the url embedded in a remote file's metadata, when
  there is a file, it embeds metadata and the url is truthy.\<close>

definition get_item_url_of_file :: "FileMetadataResponse option \<Rightarrow> string option" where
  "get_item_url_of_file file_response =
     (case file_response of
        None \<Rightarrow> None
      | Some f \<Rightarrow>
          (case meta f of
             None \<Rightarrow> None
           | Some extra_meta \<Rightarrow>
               (if truthy (url (metadata extra_meta)) then url (metadata extra_meta) else None)))"

text \<open>\<^verbatim>\<open>_get_file_meta_if_exists_in_knowledge\<close>: the first remote file whose url is
  truthy and equal to the document's.\<close>

definition get_file_meta_if_exists_in_knowledge ::
    "FileMetadataResponse list \<Rightarrow> ItemMetadata \<Rightarrow> FileMetadataResponse option" where
  "get_file_meta_if_exists_in_knowledge knowledge_files file_metadata =
     find (\<lambda>kf. truthy (get_item_url_of_file (Some kf))
                \<and> get_item_url_of_file (Some kf) = url file_metadata) knowledge_files"

text \<open>\<^verbatim>\<open>remove_result[0].get("success", False)\<close>.\<close>

definition get_success :: "pydict \<Rightarrow> bool" where
  "get_success r = (case map_of r ''success'' of None \<Rightarrow> False | Some v \<Rightarrow> truthy_val v)"

text \<open>
  The body of the loop of \<^verbatim>\<open>update_files\<close>, for one document: its result dictionary,
  or the \<^verbatim>\<open>IndexError\<close> of \<^verbatim>\<open>remove_result[0]\<close> on an empty list.
\<close>

definition update_file ::
    "'w remote \<Rightarrow> string \<Rightarrow> FileMetadataResponse list \<Rightarrow> string \<Rightarrow> ExtraMetadata \<Rightarrow> 'w state
      \<Rightarrow> (py_error + pydict) \<times> 'w state" where
  "update_file env knowledge_id knowledge_files file_path file_metadata s =
     (let file = get_file_meta_if_exists_in_knowledge knowledge_files (metadata file_metadata);
          file_id = map_option id_f file;
          file_item_url = get_item_url_of_file file
      in case (if truthy file_id then file_id else None) of
           None \<Rightarrow>
             (Inr [(''file_name'', opt_val file_item_url), (''success'', PBool False),
                   (''error'', PStr ''File not found'')],
              log_record WARNING (''File not found: '' @ opt_str file_item_url) s)
         | Some fid \<Rightarrow>
             (let (remove_result, s1) = remove_files env knowledge_id [fid] s
              in case remove_result of
                   [] \<Rightarrow> (Inl IndexError, s1)
                 | r0 # _ \<Rightarrow>
                     (if get_success r0
                      then (let (add_result, s2) =
                                  upload_file_and_add_to_kb env file_path file_metadata
                                    knowledge_id s1
                            in (Inr [(''file_name'', opt_val file_item_url),
                                     (''success'', PBool True), (''result'', PDict add_result)],
                                s2))
                      else (Inr [(''file_name'', opt_val file_item_url),
                                 (''success'', PBool False),
                                 (''error'', PStr ''Failed to remove file'')], s1))))"

fun update_loop ::
    "'w remote \<Rightarrow> string \<Rightarrow> FileMetadataResponse list \<Rightarrow> (string \<times> ExtraMetadata) list
      \<Rightarrow> 'w state \<Rightarrow> (py_error + pydict list) \<times> 'w state" where
  "update_loop env knowledge_id knowledge_files [] s = (Inr [], s)"
| "update_loop env knowledge_id knowledge_files ((file_path, file_metadata) # rest) s =
     (case update_file env knowledge_id knowledge_files file_path file_metadata s of
        (Inl e, s1) \<Rightarrow> (Inl e, s1)
      | (Inr r, s1) \<Rightarrow>
          (case update_loop env knowledge_id knowledge_files rest s1 of
             (Inl e, s2) \<Rightarrow> (Inl e, s2)
           | (Inr results, s2) \<Rightarrow> (Inr (r # results), s2)))"

text \<open>\<^verbatim>\<open>update_files\<close>: the files of the knowledge base are retrieved once, before
  the loop over \<^verbatim>\<open>zip(file_paths, metadata)\<close>.\<close>

definition update_files ::
    "'w remote \<Rightarrow> string \<Rightarrow> string list \<Rightarrow> ExtraMetadata list \<Rightarrow> 'w state
      \<Rightarrow> (py_error + pydict list) \<times> 'w state" where
  "update_files env knowledge_id file_paths mds s =
     (let (knowledge_files, s1) = retrieve_files_in_knowledge env knowledge_id s
      in update_loop env knowledge_id knowledge_files (zip file_paths mds) s1)"

section \<open>Adding files\<close>

text \<open>The argument \<^verbatim>\<open>metadata\<close> of \<^verbatim>\<open>add_files\<close>: \<^verbatim>\<open>None\<close> (the default), one
  \<^verbatim>\<open>ExtraMetadata\<close>, or a list.\<close>

datatype metadata_arg =
    NoMetadata
  | OneMetadata ExtraMetadata
  | MetadataList "ExtraMetadata list"

text \<open>The urls of the files already in the knowledge base: the first loop of
  \<^verbatim>\<open>add_files\<close>.\<close>

definition existing_urls :: "FileMetadataResponse list \<Rightarrow> string option list" where
  "existing_urls knowledge_files =
     map (\<lambda>item_meta. url (metadata item_meta)) (List.map_filter meta knowledge_files)"

text \<open>
  The second loop of \<^verbatim>\<open>add_files\<close>: a document is kept for upload when its url is truthy
  and not among the existing ones; for every other document a warning is logged and
  nothing else is done.
\<close>

fun select_uploads :: "string option set \<Rightarrow> (string \<times> ExtraMetadata) list \<Rightarrow> 'w state
    \<Rightarrow> (string list \<times> ExtraMetadata list) \<times> 'w state" where
  "select_uploads existing_files [] s = (([], []), s)"
| "select_uploads existing_files ((file_path, meta_data) # rest) s =
     (if truthy (url (metadata meta_data)) \<and> url (metadata meta_data) \<notin> existing_files
      then (let ((file_paths_to_upload, metadata_to_upload), s1) =
                  select_uploads existing_files rest s
            in ((file_path # file_paths_to_upload, meta_data # metadata_to_upload), s1))
      else select_uploads existing_files rest
             (log_record WARNING
                (''File already exists in knowledge base: '' @ file_path @ '', skipping.'') s))"

text \<open>
  \<^verbatim>\<open>range(0, n, step)\<close>: a \<^verbatim>\<open>ValueError\<close> for the step 0, the empty range for a negative
  step, and \<open>0, step, 2 * step, ...\<close> below \<open>n\<close> otherwise.
\<close>

function range_from :: "nat \<Rightarrow> nat \<Rightarrow> nat \<Rightarrow> nat list" where
  "range_from i n k = (if k = 0 \<or> n \<le> i then [] else i # range_from (i + k) n k)"
  by pat_completeness auto
termination
  by (relation "measure (\<lambda>(i, n, k). n - i)") auto

declare range_from.simps [simp del]

definition py_range :: "nat \<Rightarrow> int \<Rightarrow> py_error + nat list" where
  "py_range n step =
     (if step = 0 then Inl ValueError
      else if step < 0 then Inr []
      else Inr (range_from 0 n (nat step)))"

text \<open>
  The third loop of \<^verbatim>\<open>add_files\<close>, over the starts \<open>i\<close> of the batches: the slices
  \<^verbatim>\<open>[i : i + batch_size]\<close> are uploaded, and the ids that came back are attached with
  one request when there is at least one.
\<close>

fun add_batches ::
    "'w remote \<Rightarrow> string \<Rightarrow> string list \<Rightarrow> ExtraMetadata list \<Rightarrow> nat \<Rightarrow> nat list \<Rightarrow> 'w state
      \<Rightarrow> (py_error + pydict list) \<times> 'w state" where
  "add_batches env knowledge_id file_paths_to_upload metadata_to_upload bs [] s = (Inr [], s)"
| "add_batches env knowledge_id file_paths_to_upload metadata_to_upload bs (i # starts) s =
     (let batch_files = take bs (drop i file_paths_to_upload);
          batch_metadata = take bs (drop i metadata_to_upload)
      in case upload_files_batch env batch_files batch_metadata s of
           (Inl e, s1) \<Rightarrow> (Inl e, s1)
         | (Inr batch_file_ids, s1) \<Rightarrow>
             (let (batch_result, s2) =
                    (if batch_file_ids \<noteq> []
                     then add_files_to_kb_batch env knowledge_id batch_file_ids s1
                     else ([], s1))
              in case add_batches env knowledge_id file_paths_to_upload metadata_to_upload
                        bs starts s2 of
                   (Inl e, s3) \<Rightarrow> (Inl e, s3)
                 | (Inr results, s3) \<Rightarrow> (Inr (batch_result @ results), s3)))"

text \<open>
  \<^verbatim>\<open>add_files\<close>. \<^verbatim>\<open>zip(file_paths, None)\<close> raises a \<^verbatim>\<open>TypeError\<close> when it is called,
  after the files of the knowledge base were retrieved; \<^verbatim>\<open>range\<close> raises its
  \<^verbatim>\<open>ValueError\<close> after the documents were selected.
\<close>

definition add_files ::
    "'w remote \<Rightarrow> KnowledgeManager \<Rightarrow> string \<Rightarrow> string list \<Rightarrow> metadata_arg \<Rightarrow> 'w state
      \<Rightarrow> (py_error + pydict list) \<times> 'w state" where
  "add_files env self knowledge_id file_paths md s =
     (let (knowledge_files, s1) = retrieve_files_in_knowledge env knowledge_id s;
          existing_files = set (existing_urls knowledge_files)
      in case (case md of
                 NoMetadata \<Rightarrow> Inl TypeError
               | OneMetadata m \<Rightarrow> Inr (replicate (length file_paths) m)
               | MetadataList ms \<Rightarrow> Inr ms) of
           Inl e \<Rightarrow> (Inl e, s1)
         | Inr mds \<Rightarrow>
             (let ((file_paths_to_upload, metadata_to_upload), s2) =
                    select_uploads existing_files (zip file_paths mds) s1
              in case py_range (length file_paths_to_upload) (batch_size self) of
                   Inl e \<Rightarrow> (Inl e, s2)
                 | Inr starts \<Rightarrow>
                     add_batches env knowledge_id file_paths_to_upload metadata_to_upload
                       (nat (batch_size self)) starts s2))"

section \<open>Reading the requests of a run\<close>

text \<open>The lists of file ids of the batch-attach requests among some calls, in the
  order of the calls.\<close>

fun attach_of :: "request \<times> reply \<Rightarrow> string list list" where
  "attach_of (BatchAddFiles knowledge_id file_ids, rp) = [file_ids]"
| "attach_of (rq, rp) = []"

definition attach_calls :: "(request \<times> reply) list \<Rightarrow> string list list" where
  "attach_calls cs = concat (map attach_of cs)"

text \<open>The uploads among some calls, each with the path, the metadata and the id the
  reply carried, in the order of the calls.\<close>

fun upload_of :: "request \<times> reply \<Rightarrow> (string \<times> ExtraMetadata option \<times> string option) list" where
  "upload_of (UploadFile file_path md, rp) = [(file_path, md, body_id rp)]"
| "upload_of (rq, rp) = []"

definition upload_calls ::
    "(request \<times> reply) list \<Rightarrow> (string \<times> ExtraMetadata option \<times> string option) list" where
  "upload_calls cs = concat (map upload_of cs)"

fun create_of :: "request \<times> reply \<Rightarrow> string list" where
  "create_of (CreateKnowledge name description d a, rp) = [name]"
| "create_of (rq, rp) = []"

definition create_calls :: "(request \<times> reply) list \<Rightarrow> string list" where
  "create_calls cs = concat (map create_of cs)"

text \<open>What a run added to the calls and to the log of the state it started from.\<close>

definition new_calls :: "'w state \<Rightarrow> 'w state \<Rightarrow> (request \<times> reply) list" where
  "new_calls s s' = drop (length (calls s)) (calls s')"

definition new_logs :: "'w state \<Rightarrow> 'w state \<Rightarrow> (level \<times> string) list" where
  "new_logs s s' = drop (length (logs s)) (logs s')"

section \<open>A remote store\<close>

text \<open>
  Modelled from the spec: the remote knowledge store is a service that the source calls
  over HTTP; none of it is among the source files. Section 6 of the spec gives its
  interface, and the store below follows it: a knowledge base has an id, a name and its
  attached files; an uploaded file gets a fresh id and keeps the metadata it was
  uploaded with under the reserved key of its \<^verbatim>\<open>meta\<close>; attaching needs a knowledge base
  and uploaded files, removing needs an attached file; every other request is refused
  with the status 400. It is used as one concrete remote store, to run the operations on.
\<close>

record store_kb =
  s_id :: string
  s_name :: string
  s_files :: "FileMetadataResponse list"

record store =
  bases :: "store_kb list"
  uploaded :: "FileMetadataResponse list"
  next_id :: nat

definition fresh_id :: "nat \<Rightarrow> string" where
  "fresh_id n = ''id-'' @ replicate n (CHR ''i'')"

definition ok_reply :: reply where
  "ok_reply = \<lparr>status = 200, body_text = ''{}'', body_id = None, body_kbs = [], body_files = []\<rparr>"

definition refused :: "string \<Rightarrow> reply" where
  "refused msg = \<lparr>status = 400, body_text = msg, body_id = None, body_kbs = [], body_files = []\<rparr>"

definition attach_files :: "string \<Rightarrow> FileMetadataResponse list \<Rightarrow> store \<Rightarrow> store" where
  "attach_files knowledge_id fs st =
     st\<lparr>bases := map (\<lambda>b. if s_id b = knowledge_id then b\<lparr>s_files := s_files b @ fs\<rparr> else b)
                     (bases st)\<rparr>"

definition detach_file :: "string \<Rightarrow> string \<Rightarrow> store \<Rightarrow> store" where
  "detach_file knowledge_id file_id st =
     st\<lparr>bases := map (\<lambda>b. if s_id b = knowledge_id
                            then b\<lparr>s_files := filter (\<lambda>f. id_f f \<noteq> file_id) (s_files b)\<rparr>
                            else b) (bases st),
        uploaded := filter (\<lambda>f. id_f f \<noteq> file_id) (uploaded st)\<rparr>"

fun store_serve :: "request \<Rightarrow> store \<Rightarrow> reply \<times> store" where
  "store_serve ListKnowledge st =
     (ok_reply\<lparr>body_kbs := map (\<lambda>b. \<lparr>kb_id = Some (s_id b), kb_name = Some (s_name b)\<rparr>)
                               (bases st)\<rparr>, st)"
| "store_serve (CreateKnowledge name description d a) st =
     (ok_reply\<lparr>body_id := Some (fresh_id (next_id st))\<rparr>,
      st\<lparr>bases := bases st @ [\<lparr>s_id = fresh_id (next_id st), s_name = name, s_files = []\<rparr>],
         next_id := Suc (next_id st)\<rparr>)"
| "store_serve (GetKnowledge knowledge_id) st =
     (case find (\<lambda>b. s_id b = knowledge_id) (bases st) of
        None \<Rightarrow> (refused ''no such knowledge base'', st)
      | Some b \<Rightarrow> (ok_reply\<lparr>body_id := Some knowledge_id, body_files := s_files b\<rparr>, st))"
| "store_serve (UploadFile file_path md) st =
     (ok_reply\<lparr>body_id := Some (fresh_id (next_id st))\<rparr>,
      st\<lparr>uploaded := \<lparr>id_f = fresh_id (next_id st), meta = md, created_at = 0,
                        updated_at = 0\<rparr> # uploaded st,
         next_id := Suc (next_id st)\<rparr>)"
| "store_serve (AddFile knowledge_id file_id) st =
     (case (find (\<lambda>b. s_id b = knowledge_id) (bases st),
            find (\<lambda>f. id_f f = file_id) (uploaded st)) of
        (Some b, Some f) \<Rightarrow> (ok_reply, attach_files knowledge_id [f] st)
      | _ \<Rightarrow> (refused ''cannot add the file'', st))"
| "store_serve (BatchAddFiles knowledge_id file_ids) st =
     (if find (\<lambda>b. s_id b = knowledge_id) (bases st) \<noteq> None
         \<and> list_all (\<lambda>i. find (\<lambda>f. id_f f = i) (uploaded st) \<noteq> None) file_ids
      then (ok_reply,
            attach_files knowledge_id
              (List.map_filter (\<lambda>i. find (\<lambda>f. id_f f = i) (uploaded st)) file_ids) st)
      else (refused ''cannot add the files'', st))"
| "store_serve (RemoveFile knowledge_id file_id) st =
     (case find (\<lambda>b. s_id b = knowledge_id) (bases st) of
        None \<Rightarrow> (refused ''no such knowledge base'', st)
      | Some b \<Rightarrow>
          (if find (\<lambda>f. id_f f = file_id) (s_files b) = None
           then (refused ''no such file'', st)
           else (ok_reply, detach_file knowledge_id file_id st)))"

text \<open>The store as a remote, with the local files that exist.\<close>

definition store_remote :: "string list \<Rightarrow> store remote" where
  "store_remote local_files =
     \<lparr>serve = store_serve, path_exists = (\<lambda>file_path. file_path \<in> set local_files)\<rparr>"

definition start :: "store \<Rightarrow> store state" where
  "start st = \<lparr>world = st, calls = [], logs = []\<rparr>"

text \<open>The remote files of a knowledge base of the store that carry a url.\<close>

definition files_with_url :: "store \<Rightarrow> string \<Rightarrow> string \<Rightarrow> FileMetadataResponse list" where
  "files_with_url st knowledge_id u =
     concat (map (\<lambda>b. if s_id b = knowledge_id
                       then filter (\<lambda>f. get_item_url_of_file (Some f) = Some u) (s_files b)
                       else []) (bases st))"

section \<open>Example inputs\<close>

text \<open>A document's metadata with a given url, a remote file that embeds it, and two
  stores: the empty one and one with a single knowledge base.\<close>

definition example_metadata :: "string option \<Rightarrow> ExtraMetadata" where
  "example_metadata u =
     \<lparr>auth = \<lparr>users = [''user1''], groups = [''group1'']\<rparr>,
      metadata = \<lparr>title = ''Test Document'', url = u, context_url = None,
                  date = ''2023-07-01T12:00:00Z'', source = ''integration_test''\<rparr>\<rparr>"

definition example_file :: "string \<Rightarrow> string option \<Rightarrow> FileMetadataResponse" where
  "example_file i u = \<lparr>id_f = i, meta = Some (example_metadata u), created_at = 0, updated_at = 0\<rparr>"

definition empty_store :: store where
  "empty_store = \<lparr>bases = [], uploaded = [], next_id = 0\<rparr>"

definition store_with :: "string \<Rightarrow> string \<Rightarrow> FileMetadataResponse list \<Rightarrow> store" where
  "store_with knowledge_id name fs =
     \<lparr>bases = [\<lparr>s_id = knowledge_id, s_name = name, s_files = fs\<rparr>], uploaded = fs, next_id = 0\<rparr>"

text \<open>A manager as the constructor returns it, with the batch size 3.\<close>

definition example_manager :: KnowledgeManager where
  "example_manager =
     \<lparr>base_url = ''http://localhost:8080/api/v1'', api_key = ''key'', batch_size = 3,
      headers = [(''Authorization'', ''Bearer key'')]\<rparr>"

text \<open>Seven documents with distinct urls, as in the test of the batches.\<close>

definition example_paths :: "string list" where
  "example_paths = [''f0'', ''f1'', ''f2'', ''f3'', ''f4'', ''f5'', ''f6'']"

definition example_metadatas :: "ExtraMetadata list" where
  "example_metadatas =
     map (\<lambda>u. example_metadata (Some u)) [''u0'', ''u1'', ''u2'', ''u3'', ''u4'', ''u5'', ''u6'']"

section \<open>The test, the warning and the comparison of runs\<close>

text \<open>The test of the second loop of \<open>add_files\<close> on a document, given the urls of
  the knowledge base, and the warning logged for a document that fails it.\<close>

definition is_new :: "string option set \<Rightarrow> string \<times> ExtraMetadata \<Rightarrow> bool" where
  "is_new existing_files doc =
     (truthy (url (metadata (snd doc))) \<and> url (metadata (snd doc)) \<notin> existing_files)"

definition skip_warning :: "string \<Rightarrow> level \<times> string" where
  "skip_warning file_path =
     (WARNING, ''File already exists in knowledge base: '' @ file_path @ '', skipping.'')"

text \<open>Two states are the same for the remote store when they differ in the log only.\<close>

definition same_remote :: "'w state \<Rightarrow> 'w state \<Rightarrow> bool" where
  "same_remote s t = (world s = world t \<and> calls s = calls t)"

text \<open>A later state of a run extends an earlier one: the calls and the log only grow.\<close>

definition extends :: "'w state \<Rightarrow> 'w state \<Rightarrow> bool" where
  "extends s s' =
     (take (length (calls s)) (calls s') = calls s \<and> take (length (logs s)) (logs s') = logs s)"

section \<open>Properties\<close>

lemma remove_files_ids:
  "map (\<lambda>r. map_of r ''file_id'') (fst (remove_files env knowledge_id file_ids s))
     = map (\<lambda>i. Some (PStr i)) file_ids"
  by (induction file_ids arbitrary: s) (simp_all add: Let_def case_prod_beta)

text \<open>
  Claim C7. For every list of file ids, every remote store and every state,
  \<open>remove_files\<close> returns a list of the length of the input whose record at
  index \<open>i\<close> has the input's id at index \<open>i\<close> under the key \<^verbatim>\<open>file_id\<close>, whatever the
  remote store answered to each request.
\<close>

theorem remove_files_one_result_per_id:
  "length (fst (remove_files env knowledge_id file_ids s)) = length file_ids
   \<and> map (\<lambda>r. map_of r ''file_id'') (fst (remove_files env knowledge_id file_ids s))
       = map (\<lambda>i. Some (PStr i)) file_ids"
  using remove_files_ids [of env knowledge_id file_ids s] map_eq_imp_length_eq by blast

subsection \<open>Errors of \<open>add_files\<close>\<close>

lemma upload_tasks_error: "upload_tasks ps mds i = Inl e \<Longrightarrow> e = IndexError"
  by (induction ps arbitrary: i) (auto split: if_splits sum.splits)

lemma upload_files_batch_error:
  "fst (upload_files_batch env ps mds s) = Inl e \<Longrightarrow> e = IndexError"
  by (auto simp: upload_files_batch_def case_prod_beta dest: upload_tasks_error split: sum.splits)

lemma add_batches_error:
  "fst (add_batches env kid ps mds bs starts s) = Inl e \<Longrightarrow> e = IndexError"
proof (induction starts arbitrary: s)
  case Nil
  then show ?case by simp
next
  case (Cons i starts)
  then show ?case
    by (auto simp: Let_def case_prod_beta split: prod.splits sum.splits
          dest: upload_files_batch_error [of env _ _ s])
qed

text \<open>
  Claim C9. \<open>add_files\<close> with the argument \<^verbatim>\<open>metadata\<close> left at its default \<^verbatim>\<open>None\<close>
  raises a \<^verbatim>\<open>TypeError\<close>, for every list of paths (the empty one too), every remote
  store and every batch size; with one \<^verbatim>\<open>ExtraMetadata\<close> or a list it never raises a
  \<^verbatim>\<open>TypeError\<close>.
\<close>

theorem add_files_type_error_iff_no_metadata:
  "(fst (add_files env self knowledge_id file_paths md s) = Inl TypeError) = (md = NoMetadata)"
proof (cases md)
  case NoMetadata
  then show ?thesis by (simp add: add_files_def case_prod_beta)
next
  case (OneMetadata m)
  then show ?thesis
    by (auto simp: add_files_def case_prod_beta py_range_def Let_def
          dest: add_batches_error split: if_splits)
next
  case (MetadataList ms)
  then show ?thesis
    by (auto simp: add_files_def case_prod_beta py_range_def Let_def
          dest: add_batches_error split: if_splits)
qed

subsection \<open>Construction\<close>

text \<open>
  Claim C3, as the source has it. The constructor does not look at the batch size: for
  every batch size, those below 1 too, it returns a manager that stores the batch size
  unchanged whenever an API key is given or is in the environment, and its only error is
  the \<^verbatim>\<open>ValueError\<close> for a missing API key. A batch size of 0 fails later: \<open>add_files\<close>
  called with a list of metadata raises a \<^verbatim>\<open>ValueError\<close> at its loop over the batches.
\<close>

theorem init_ignores_batch_size:
  "(case init base_url_arg api_key_arg n environ of
      Inl e \<Rightarrow> e = ValueError
        \<and> \<not> truthy (if truthy api_key_arg then api_key_arg else environ ''OPEN_WEBUI_API_KEY'')
    | Inr self \<Rightarrow> batch_size self = n
        \<and> truthy (if truthy api_key_arg then api_key_arg else environ ''OPEN_WEBUI_API_KEY''))
   \<and> fst (add_files env (self0\<lparr>batch_size := 0\<rparr>) knowledge_id file_paths (MetadataList mds) s)
       = Inl ValueError"
proof
  show "case init base_url_arg api_key_arg n environ of
      Inl e \<Rightarrow> e = ValueError
        \<and> \<not> truthy (if truthy api_key_arg then api_key_arg else environ ''OPEN_WEBUI_API_KEY'')
    | Inr self \<Rightarrow> batch_size self = n
        \<and> truthy (if truthy api_key_arg then api_key_arg else environ ''OPEN_WEBUI_API_KEY'')"
    by (auto simp: init_def Let_def truthy_def split: option.splits)
  show "fst (add_files env (self0\<lparr>batch_size := 0\<rparr>) knowledge_id file_paths (MetadataList mds) s)
       = Inl ValueError"
    by (simp add: add_files_def case_prod_beta py_range_def Let_def)
qed

text \<open>The claim as it is written fails: with the batch size 0 and an API key the
  constructor returns a manager.\<close>

theorem init_batch_size_zero_counterexample:
  "init (Some ''http://localhost:8080/api/v1'') (Some ''key'') 0 (map_of [])
     = Inr \<lparr>base_url = ''http://localhost:8080/api/v1'', api_key = ''key'', batch_size = 0,
            headers = [(''Authorization'', ''Bearer key'')]\<rparr>"
  by (simp add: init_def truthy_def endswith_def)

subsection \<open>\<open>update_files\<close>: the failure records\<close>

lemma remove_files_single:
  "remove_files env kid [fid] s =
     (let (response, s1) = send env (RemoveFile kid fid) s in
      if status response \<noteq> 200
      then ([[(''file_id'', PStr fid), (''success'', PBool False),
              (''error'', PStr (body_text response))]],
            log_record ERROR (''Failed to remove file ID '' @ fid @ '', response: ''
                     @ body_text response) s1)
      else ([[(''file_id'', PStr fid), (''success'', PBool True),
              (''result'', PJson (body_text response))]], s1))"
  by (simp add: Let_def case_prod_beta)

lemma update_file_total: "\<exists>r. fst (update_file env kid kfs p m s) = Inr r"
  by (simp add: update_file_def Let_def case_prod_beta remove_files_single get_success_def
        split: option.splits)

lemma update_loop_total:
  "\<exists>rs. fst (update_loop env kid kfs docs s) = Inr rs \<and> length rs = length docs"
proof (induction docs arbitrary: s)
  case Nil
  then show ?case by simp
next
  case (Cons d docs)
  obtain p m where d: "d = (p, m)" by (cases d)
  obtain r where r: "fst (update_file env kid kfs p m s) = Inr r"
    using update_file_total by blast
  obtain rs where rs: "fst (update_loop env kid kfs docs (snd (update_file env kid kfs p m s))) = Inr rs"
      "length rs = length docs"
    using Cons.IH by blast
  show ?case using d r rs
    by (auto split: prod.splits sum.splits)
qed

lemma update_loop_step:
  assumes "update_file env kid kfs p m s = (Inr r, s1)"
  shows "\<exists>rs. fst (update_loop env kid kfs rest s1) = Inr rs
           \<and> fst (update_loop env kid kfs ((p, m) # rest) s) = Inr (r # rs)"
proof -
  obtain rs where rs: "fst (update_loop env kid kfs rest s1) = Inr rs"
    using update_loop_total by blast
  then show ?thesis using assms by (auto split: prod.splits sum.splits)
qed

lemma update_file_not_found:
  assumes "get_file_meta_if_exists_in_knowledge kfs (metadata m) = None"
  shows "update_file env kid kfs p m s =
     (Inr [(''file_name'', PNone), (''success'', PBool False), (''error'', PStr ''File not found'')],
      log_record WARNING ''File not found: None'' s)"
  using assms
  by (simp add: update_file_def truthy_def get_item_url_of_file_def opt_val_def opt_str_def)

lemma found_url:
  assumes "get_file_meta_if_exists_in_knowledge kfs im = Some f"
  shows "get_item_url_of_file (Some f) = url im \<and> truthy (url im)"
  using assms unfolding get_file_meta_if_exists_in_knowledge_def
  by (auto simp: find_Some_iff)

lemma update_file_remove_failed:
  assumes "get_file_meta_if_exists_in_knowledge kfs (metadata m) = Some f"
    and "id_f f \<noteq> []"
    and "serve env (RemoveFile kid (id_f f)) (world s) = (rp, w)"
    and "status rp \<noteq> 200"
  shows "update_file env kid kfs p m s =
     (Inr [(''file_name'', opt_val (url (metadata m))), (''success'', PBool False),
           (''error'', PStr ''Failed to remove file'')],
      log_record ERROR (''Failed to remove file ID '' @ id_f f @ '', response: '' @ body_text rp)
        (s\<lparr>world := w, calls := calls s @ [(RemoveFile kid (id_f f), rp)]\<rparr>))"
  using assms found_url [OF assms(1)]
  by (simp add: update_file_def truthy_def remove_files_single send_def get_success_def Let_def)

text \<open>
  Claim C6. For each document of \<open>update_files\<close> (the head of the documents the loop
  still has to process, against the files \<open>kfs\<close> retrieved at the start of the call):
  \<^item> when no remote file matches the document's url, the result is the failure record
    with the error \<^verbatim>\<open>File not found\<close>, no request is sent (only a warning is logged),
    and the loop goes on with the next document: the results of the rest follow the
    record;
  \<^item> when a file matches and the remote store answers the remove request with a status
    other than 200, the result is a failure record, the remove request is the only
    request sent for the document (no upload), and the loop goes on likewise.
\<close>

theorem update_file_failure_cases:
  "(get_file_meta_if_exists_in_knowledge kfs (metadata m) = None \<longrightarrow>
      update_file env kid kfs p m s =
        (Inr [(''file_name'', PNone), (''success'', PBool False),
              (''error'', PStr ''File not found'')],
         log_record WARNING ''File not found: None'' s)
      \<and> (\<exists>rs. fst (update_loop env kid kfs rest (log_record WARNING ''File not found: None'' s))
                  = Inr rs
             \<and> fst (update_loop env kid kfs ((p, m) # rest) s)
                  = Inr ([(''file_name'', PNone), (''success'', PBool False),
                          (''error'', PStr ''File not found'')] # rs)))
   \<and> (\<forall>f rp w.
        get_file_meta_if_exists_in_knowledge kfs (metadata m) = Some f \<and> id_f f \<noteq> []
        \<and> serve env (RemoveFile kid (id_f f)) (world s) = (rp, w) \<and> status rp \<noteq> 200 \<longrightarrow>
        update_file env kid kfs p m s =
          (Inr [(''file_name'', opt_val (url (metadata m))), (''success'', PBool False),
                (''error'', PStr ''Failed to remove file'')],
           log_record ERROR
             (''Failed to remove file ID '' @ id_f f @ '', response: '' @ body_text rp)
             (s\<lparr>world := w, calls := calls s @ [(RemoveFile kid (id_f f), rp)]\<rparr>))
        \<and> upload_calls (new_calls s (snd (update_file env kid kfs p m s))) = []
        \<and> (\<exists>rs. fst (update_loop env kid kfs rest (snd (update_file env kid kfs p m s))) = Inr rs
               \<and> fst (update_loop env kid kfs ((p, m) # rest) s)
                    = Inr ([(''file_name'', opt_val (url (metadata m))), (''success'', PBool False),
                            (''error'', PStr ''Failed to remove file'')] # rs)))"
proof (intro conjI impI allI)
  assume nf: "get_file_meta_if_exists_in_knowledge kfs (metadata m) = None"
  show a: "update_file env kid kfs p m s =
        (Inr [(''file_name'', PNone), (''success'', PBool False),
              (''error'', PStr ''File not found'')],
         log_record WARNING ''File not found: None'' s)"
    by (rule update_file_not_found [OF nf])
  show "\<exists>rs. fst (update_loop env kid kfs rest (log_record WARNING ''File not found: None'' s))
                  = Inr rs
             \<and> fst (update_loop env kid kfs ((p, m) # rest) s)
                  = Inr ([(''file_name'', PNone), (''success'', PBool False),
                          (''error'', PStr ''File not found'')] # rs)"
    by (rule update_loop_step [OF a])
next
  fix f rp w
  assume h: "get_file_meta_if_exists_in_knowledge kfs (metadata m) = Some f \<and> id_f f \<noteq> []
        \<and> serve env (RemoveFile kid (id_f f)) (world s) = (rp, w) \<and> status rp \<noteq> 200"
  have b: "update_file env kid kfs p m s =
          (Inr [(''file_name'', opt_val (url (metadata m))), (''success'', PBool False),
                (''error'', PStr ''Failed to remove file'')],
           log_record ERROR
             (''Failed to remove file ID '' @ id_f f @ '', response: '' @ body_text rp)
             (s\<lparr>world := w, calls := calls s @ [(RemoveFile kid (id_f f), rp)]\<rparr>))"
    using h by (intro update_file_remove_failed) simp_all
  show "update_file env kid kfs p m s =
          (Inr [(''file_name'', opt_val (url (metadata m))), (''success'', PBool False),
                (''error'', PStr ''Failed to remove file'')],
           log_record ERROR
             (''Failed to remove file ID '' @ id_f f @ '', response: '' @ body_text rp)
             (s\<lparr>world := w, calls := calls s @ [(RemoveFile kid (id_f f), rp)]\<rparr>))"
    by (rule b)
  show "upload_calls (new_calls s (snd (update_file env kid kfs p m s))) = []"
    by (simp add: b new_calls_def log_record_def upload_calls_def)
  show "\<exists>rs. fst (update_loop env kid kfs rest (snd (update_file env kid kfs p m s))) = Inr rs
               \<and> fst (update_loop env kid kfs ((p, m) # rest) s)
                    = Inr ([(''file_name'', opt_val (url (metadata m))), (''success'', PBool False),
                            (''error'', PStr ''Failed to remove file'')] # rs)"
    using update_loop_step [OF b] by (simp add: b)
qed

theorem update_file_failure_cases_witness:
  "fst (update_loop (store_remote []) ''kb'' [] [(''a.txt'', example_metadata (Some ''u''))]
          (start empty_store))
     = Inr [[(''file_name'', PNone), (''success'', PBool False),
             (''error'', PStr ''File not found'')]]
   \<and> fst (update_loop (store_remote []) ''kb'' [example_file ''f1'' (Some ''u'')]
            [(''a.txt'', example_metadata (Some ''u''))] (start empty_store))
     = Inr [[(''file_name'', PStr ''u''), (''success'', PBool False),
             (''error'', PStr ''Failed to remove file'')]]
   \<and> upload_calls (new_calls (start empty_store)
        (snd (update_file (store_remote []) ''kb'' [example_file ''f1'' (Some ''u'')]
            ''a.txt'' (example_metadata (Some ''u'')) (start empty_store)))) = []"
proof -
  have nf: "get_file_meta_if_exists_in_knowledge [] (metadata (example_metadata (Some ''u''))) = None"
    by (simp add: get_file_meta_if_exists_in_knowledge_def)
  have fd: "get_file_meta_if_exists_in_knowledge [example_file ''f1'' (Some ''u'')]
              (metadata (example_metadata (Some ''u''))) = Some (example_file ''f1'' (Some ''u''))
        \<and> id_f (example_file ''f1'' (Some ''u'')) \<noteq> []
        \<and> serve (store_remote []) (RemoveFile ''kb'' (id_f (example_file ''f1'' (Some ''u''))))
             (world (start empty_store)) = (refused ''no such knowledge base'', empty_store)
        \<and> status (refused ''no such knowledge base'') \<noteq> 200"
    by (simp add: get_file_meta_if_exists_in_knowledge_def get_item_url_of_file_def truthy_def
          example_file_def example_metadata_def store_remote_def start_def empty_store_def
          refused_def)
  show ?thesis
    using update_file_failure_cases [of "[]" "example_metadata (Some ''u'')" "store_remote []"
            "''kb''" "''a.txt''" "start empty_store" "[]"]
          update_file_failure_cases [of "[example_file ''f1'' (Some ''u'')]"
            "example_metadata (Some ''u'')" "store_remote []"
            "''kb''" "''a.txt''" "start empty_store" "[]"] nf fd
    by (auto simp: opt_val_def example_metadata_def)
qed

subsection \<open>Runs on the example store\<close>

lemmas store_eval = store_remote_def start_def empty_store_def store_with_def refused_def
  ok_reply_def example_file_def example_metadata_def fresh_id_def attach_files_def
  detach_file_def send_def log_record_def truthy_def

text \<open>
  Claim C1 does not hold of the source. \<open>update_files\<close> writes \<^verbatim>\<open>success: True\<close>
  as soon as the old file was removed, whatever \<^verbatim>\<open>_upload_file_and_add_to_kb\<close>
  returned. Here the knowledge base has one file with the url \<open>u\<close> and the local file
  of the document does not exist: the record says success, its nested result says that
  the upload failed, no upload request was sent, and the knowledge base is left with no
  file for the url.
\<close>

theorem update_files_reports_success_without_upload:
  "fst (update_files (store_remote []) ''kb'' [''a.txt''] [example_metadata (Some ''u'')]
          (start (store_with ''kb'' ''docs'' [example_file ''f1'' (Some ''u'')])))
     = Inr [[(''file_name'', PStr ''u''), (''success'', PBool True),
             (''result'', PDict [(''success'', PBool False),
                                 (''error'', PStr ''Failed to upload file'')])]]
   \<and> length (files_with_url (store_with ''kb'' ''docs'' [example_file ''f1'' (Some ''u'')])
         ''kb'' ''u'') = 1
   \<and> length (files_with_url
         (world (snd (update_files (store_remote []) ''kb'' [''a.txt'']
            [example_metadata (Some ''u'')]
            (start (store_with ''kb'' ''docs'' [example_file ''f1'' (Some ''u'')])))))
         ''kb'' ''u'') = 0
   \<and> upload_calls (calls (snd (update_files (store_remote []) ''kb'' [''a.txt'']
            [example_metadata (Some ''u'')]
            (start (store_with ''kb'' ''docs'' [example_file ''f1'' (Some ''u'')]))))) = []"
  by (simp add: update_files_def retrieve_files_in_knowledge_def update_file_def
        get_file_meta_if_exists_in_knowledge_def get_item_url_of_file_def
        upload_file_and_add_to_kb_def send_file_def get_success_def opt_val_def
        files_with_url_def upload_calls_def store_eval)

text \<open>
  Claim C2 does not hold of the source. After a batch-attach request that succeeded,
  the record of a file has the keys \<^verbatim>\<open>success\<close> and \<^verbatim>\<open>result\<close> only: the file id is
  inside the result, under \<^verbatim>\<open>id\<close>, and the record has no \<^verbatim>\<open>file_id\<close> (nor
  \<^verbatim>\<open>file_name\<close>), which the failure records of the same function have. Here one new
  document is added to an empty knowledge base.
\<close>

theorem add_files_success_record_without_file_id:
  "fst (add_files (store_remote [''a.txt'']) example_manager ''kb'' [''a.txt'']
          (MetadataList [example_metadata (Some ''u'')]) (start (store_with ''kb'' ''docs'' [])))
     = Inr [[(''success'', PBool True),
             (''result'', PDict [(''id'', PStr ''id-''), (''batch_result'', PJson ''{}'')])]]
   \<and> map_of [(''success'', PBool True),
             (''result'', PDict [(''id'', PStr ''id-''), (''batch_result'', PJson ''{}'')])]
        ''file_id'' = None
   \<and> map_of [(''success'', PBool True),
             (''result'', PDict [(''id'', PStr ''id-''), (''batch_result'', PJson ''{}'')])]
        ''file_name'' = None"
  by (simp add: add_files_def retrieve_files_in_knowledge_def existing_urls_def
        py_range_def range_from.simps example_manager_def
        upload_files_batch_def send_file_def add_files_to_kb_batch_def store_eval)

subsection \<open>\<open>create_knowledge_if_not_exists\<close>\<close>

lemma create_found:
  assumes "serve env ListKnowledge (world s) = (r, w)" "status r = 200"
    "find (\<lambda>kb. kb_name kb = Some name) (body_kbs r) = Some kb"
  shows "create_knowledge_if_not_exists env name description data access_control s
           = (kb_id kb, s\<lparr>world := w, calls := calls s @ [(ListKnowledge, r)]\<rparr>)"
  using assms by (simp add: create_knowledge_if_not_exists_def send_def)

lemma create_calls_of_create:
  "create_calls (new_calls s
       (snd (create_knowledge_if_not_exists env name description data access_control s)))
     = (if status (fst (serve env ListKnowledge (world s))) = 200
          \<and> find (\<lambda>kb. kb_name kb = Some name)
                (body_kbs (fst (serve env ListKnowledge (world s)))) \<noteq> None
        then [] else [name])"
  by (auto simp: create_knowledge_if_not_exists_def send_def case_prod_beta Let_def
        log_record_def new_calls_def create_calls_def split: option.splits)

lemma create_calls_append: "create_calls (xs @ ys) = create_calls xs @ create_calls ys"
  by (simp add: create_calls_def)

lemma create_extends_calls:
  "\<exists>cs. calls (snd (create_knowledge_if_not_exists env name description data access_control s))
          = calls s @ cs"
  by (auto simp: create_knowledge_if_not_exists_def send_def case_prod_beta Let_def
        log_record_def split: option.splits)

lemma create_created:
  assumes "serve env ListKnowledge (world s) = (ra, wa)"
    and "\<not> (status ra = 200 \<and> find (\<lambda>kb. kb_name kb = Some name) (body_kbs ra) \<noteq> None)"
    and "serve env (CreateKnowledge name description (or_empty data) (or_empty access_control)) wa
           = (rb, wb)"
    and "status rb = 200" "body_id rb = Some i" "i \<noteq> []"
  shows "create_knowledge_if_not_exists env name description data access_control s
           = (Some i, s\<lparr>world := wb,
                calls := calls s @ [(ListKnowledge, ra),
                  (CreateKnowledge name description (or_empty data) (or_empty access_control),
                   rb)]\<rparr>)"
  using assms
  by (auto simp: create_knowledge_if_not_exists_def send_def truthy_def)

lemma store_list_find:
  "find (\<lambda>kb. kb_name kb = Some name)
     (map (\<lambda>b. \<lparr>kb_id = Some (s_id b), kb_name = Some (s_name b)\<rparr>) bs)
   = map_option (\<lambda>b. \<lparr>kb_id = Some (s_id b), kb_name = Some (s_name b)\<rparr>)
       (find (\<lambda>b. s_name b = name) bs)"
  by (induction bs) simp_all

lemma find_None_filter: "find P xs = None \<Longrightarrow> filter P xs = []"
  by (induction xs) (auto split: if_splits)

lemma find_Some_filter: "find P xs = Some x \<Longrightarrow> 1 \<le> length (filter P xs)"
  by (induction xs) (auto split: if_splits)

lemma find_append_None: "find P xs = None \<Longrightarrow> find P (xs @ ys) = find P ys"
  by (induction xs) (auto split: if_splits)

lemma store_create_found:
  assumes "world s = st" "find (\<lambda>b. s_name b = name) (bases st) = Some b"
  shows "fst (create_knowledge_if_not_exists (store_remote l) name description data
                access_control s) = Some (s_id b)"
    and "world (snd (create_knowledge_if_not_exists (store_remote l) name description data
                access_control s)) = st"
  using assms
  by (simp_all add: create_knowledge_if_not_exists_def send_def store_remote_def ok_reply_def
        store_list_find)

lemma store_create_new:
  assumes "world s = st" "find (\<lambda>b. s_name b = name) (bases st) = None"
  shows "fst (create_knowledge_if_not_exists (store_remote l) name description data
                access_control s) = Some (fresh_id (next_id st))"
    and "world (snd (create_knowledge_if_not_exists (store_remote l) name description data
                access_control s))
          = st\<lparr>bases := bases st @ [\<lparr>s_id = fresh_id (next_id st), s_name = name, s_files = []\<rparr>],
               next_id := Suc (next_id st)\<rparr>"
  using assms
  by (simp_all add: create_knowledge_if_not_exists_def send_def store_remote_def ok_reply_def
        store_list_find truthy_def fresh_id_def)

text \<open>The two calls on the store, from any state of it.\<close>

lemma store_create_twice:
  "fst (create_knowledge_if_not_exists (store_remote l) name description data access_control
          (snd (create_knowledge_if_not_exists (store_remote l) name description data
                  access_control (start st))))
     = fst (create_knowledge_if_not_exists (store_remote l) name description data access_control
              (start st))
   \<and> length (filter (\<lambda>b. s_name b = name)
        (bases (world (snd (create_knowledge_if_not_exists (store_remote l) name description data
           access_control
           (snd (create_knowledge_if_not_exists (store_remote l) name description data
                  access_control (start st))))))))
     = max 1 (length (filter (\<lambda>b. s_name b = name) (bases st)))"
proof -
  define s1 where "s1 = snd (create_knowledge_if_not_exists (store_remote l) name description
     data access_control (start st))"
  have w0: "world (start st) = st" by (simp add: start_def)
  show ?thesis
  proof (cases "find (\<lambda>b. s_name b = name) (bases st)")
    case None
    define st' where "st' = st\<lparr>bases := bases st
        @ [\<lparr>s_id = fresh_id (next_id st), s_name = name, s_files = []\<rparr>],
        next_id := Suc (next_id st)\<rparr>"
    have f0: "filter (\<lambda>b. s_name b = name) (bases st) = []"
      using None by (rule find_None_filter)
    have first: "fst (create_knowledge_if_not_exists (store_remote l) name description data
        access_control (start st)) = Some (fresh_id (next_id st))"
      and w1: "world s1 = st'"
      unfolding s1_def st'_def using store_create_new [OF w0 None] by simp_all
    have fnd: "find (\<lambda>b. s_name b = name) (bases st')
        = Some \<lparr>s_id = fresh_id (next_id st), s_name = name, s_files = []\<rparr>"
      unfolding st'_def using None by (simp add: find_append_None)
    have second: "fst (create_knowledge_if_not_exists (store_remote l) name description data
        access_control s1) = Some (fresh_id (next_id st))"
      and w2: "world (snd (create_knowledge_if_not_exists (store_remote l) name description data
        access_control s1)) = st'"
      using store_create_found [OF w1 fnd] by simp_all
    show ?thesis
      unfolding s1_def [symmetric] second first w2 by (simp add: st'_def f0)
  next
    case (Some b)
    have c: "1 \<le> length (filter (\<lambda>b. s_name b = name) (bases st))"
      using Some by (rule find_Some_filter)
    have first: "fst (create_knowledge_if_not_exists (store_remote l) name description data
        access_control (start st)) = Some (s_id b)"
      and w1: "world s1 = st"
      unfolding s1_def using store_create_found [OF w0 Some] by simp_all
    have second: "fst (create_knowledge_if_not_exists (store_remote l) name description data
        access_control s1) = Some (s_id b)"
      and w2: "world (snd (create_knowledge_if_not_exists (store_remote l) name description data
        access_control s1)) = st"
      using store_create_found [OF w1 Some] by simp_all
    show ?thesis
      unfolding s1_def [symmetric] second first w2 using c by (simp add: max_def)
  qed
qed

text \<open>
  Claim C8. \<open>create_knowledge_if_not_exists\<close>:
  \<^item> when the list request is answered with the status 200 and a listed knowledge base
    has the requested name, the result is the id of the first such base and the list
    request is the only request sent;
  \<^item> a create request is sent exactly when that is not so (names are compared with
    \<open>=\<close> on strings, so with their case); in particular it is sent when the list
    request is refused, whatever the store holds, so the consequence below is stated for
    list requests that are answered with the status 200;
  \<^item> hence two calls in a row with the same name return the same id: when the first
    call finds a base and the second list request shows the same first base under the
    name, both calls return that base's id and no create request is sent; when the first
    call finds none, the create request is answered with an id and the second list
    request shows, first under the name, a base with the id of the create reply, both
    calls return that id and exactly one create request is sent. The hypotheses are
    about the replies of the store only; what the calls return is derived;
  \<^item> on the store of section 6, from every state of it, the two calls return the same id
    and leave \<open>max 1 n\<close> knowledge bases of the name, where \<open>n\<close> is their number
    before: one when there was none or one, and never one more than before when there
    was one.
\<close>

theorem create_knowledge_first_match:
  "(\<forall>r w kb. serve env ListKnowledge (world s) = (r, w) \<and> status r = 200
       \<and> find (\<lambda>kb. kb_name kb = Some name) (body_kbs r) = Some kb \<longrightarrow>
       create_knowledge_if_not_exists env name description data access_control s
         = (kb_id kb, s\<lparr>world := w, calls := calls s @ [(ListKnowledge, r)]\<rparr>))
   \<and> create_calls (new_calls s
         (snd (create_knowledge_if_not_exists env name description data access_control s)))
       = (if status (fst (serve env ListKnowledge (world s))) = 200
            \<and> find (\<lambda>kb. kb_name kb = Some name)
                  (body_kbs (fst (serve env ListKnowledge (world s)))) \<noteq> None
          then [] else [name])
   \<and> (serve env ListKnowledge (world s) = (ra, wa) \<and> status ra = 200
        \<and> find (\<lambda>kb. kb_name kb = Some name) (body_kbs ra) = Some kb
        \<and> serve env ListKnowledge wa = (rc, wc) \<and> status rc = 200
        \<and> find (\<lambda>kb. kb_name kb = Some name) (body_kbs rc) = Some kb'
        \<and> kb_id kb' = kb_id kb \<longrightarrow>
        fst (create_knowledge_if_not_exists env name description data access_control s)
          = kb_id kb
        \<and> fst (create_knowledge_if_not_exists env name description data access_control
               (snd (create_knowledge_if_not_exists env name description data access_control s)))
          = kb_id kb
        \<and> create_calls (new_calls s
             (snd (create_knowledge_if_not_exists env name description data access_control
               (snd (create_knowledge_if_not_exists env name description data access_control
                  s))))) = [])
   \<and> (serve env ListKnowledge (world s) = (rd, wd)
        \<and> \<not> (status rd = 200
              \<and> find (\<lambda>kb. kb_name kb = Some name) (body_kbs rd) \<noteq> None)
        \<and> serve env (CreateKnowledge name description (or_empty data) (or_empty access_control))
             wd = (rb, wb)
        \<and> status rb = 200 \<and> body_id rb = Some i \<and> i \<noteq> []
        \<and> serve env ListKnowledge wb = (re, we) \<and> status re = 200
        \<and> find (\<lambda>kb. kb_name kb = Some name) (body_kbs re) = Some kb''
        \<and> kb_id kb'' = body_id rb \<longrightarrow>
        fst (create_knowledge_if_not_exists env name description data access_control s)
          = Some i
        \<and> fst (create_knowledge_if_not_exists env name description data access_control
               (snd (create_knowledge_if_not_exists env name description data access_control s)))
          = Some i
        \<and> create_calls (new_calls s
             (snd (create_knowledge_if_not_exists env name description data access_control
               (snd (create_knowledge_if_not_exists env name description data access_control
                  s))))) = [name])
   \<and> fst (create_knowledge_if_not_exists (store_remote l) name description data access_control
          (snd (create_knowledge_if_not_exists (store_remote l) name description data
                  access_control (start st))))
       = fst (create_knowledge_if_not_exists (store_remote l) name description data
                access_control (start st))
   \<and> length (filter (\<lambda>b. s_name b = name)
        (bases (world (snd (create_knowledge_if_not_exists (store_remote l) name description data
           access_control
           (snd (create_knowledge_if_not_exists (store_remote l) name description data
                  access_control (start st))))))))
       = max 1 (length (filter (\<lambda>b. s_name b = name) (bases st)))"
proof -
  have p1: "\<forall>r w kb. serve env ListKnowledge (world s) = (r, w) \<and> status r = 200
       \<and> find (\<lambda>kb. kb_name kb = Some name) (body_kbs r) = Some kb \<longrightarrow>
       create_knowledge_if_not_exists env name description data access_control s
         = (kb_id kb, s\<lparr>world := w, calls := calls s @ [(ListKnowledge, r)]\<rparr>)"
    by (intro allI impI create_found) simp_all
  have p3: "fst (create_knowledge_if_not_exists env name description data access_control s)
          = kb_id kb
        \<and> fst (create_knowledge_if_not_exists env name description data access_control
               (snd (create_knowledge_if_not_exists env name description data access_control s)))
          = kb_id kb
        \<and> create_calls (new_calls s
             (snd (create_knowledge_if_not_exists env name description data access_control
               (snd (create_knowledge_if_not_exists env name description data access_control
                  s))))) = []"
    if h: "serve env ListKnowledge (world s) = (ra, wa) \<and> status ra = 200
        \<and> find (\<lambda>kb. kb_name kb = Some name) (body_kbs ra) = Some kb
        \<and> serve env ListKnowledge wa = (rc, wc) \<and> status rc = 200
        \<and> find (\<lambda>kb. kb_name kb = Some name) (body_kbs rc) = Some kb'
        \<and> kb_id kb' = kb_id kb"
  proof -
    from h have a: "serve env ListKnowledge (world s) = (ra, wa)" "status ra = 200"
        "find (\<lambda>kb. kb_name kb = Some name) (body_kbs ra) = Some kb"
      and c: "serve env ListKnowledge wa = (rc, wc)" "status rc = 200"
        "find (\<lambda>kb. kb_name kb = Some name) (body_kbs rc) = Some kb'"
      and k: "kb_id kb' = kb_id kb"
      by simp_all
    define s1 where "s1 = s\<lparr>world := wa, calls := calls s @ [(ListKnowledge, ra)]\<rparr>"
    have first: "create_knowledge_if_not_exists env name description data access_control s
        = (kb_id kb, s1)"
      unfolding s1_def by (rule create_found [OF a])
    have c1: "serve env ListKnowledge (world s1) = (rc, wc)" using c(1) by (simp add: s1_def)
    have second: "create_knowledge_if_not_exists env name description data access_control s1
        = (kb_id kb', s1\<lparr>world := wc, calls := calls s1 @ [(ListKnowledge, rc)]\<rparr>)"
      by (rule create_found [OF c1 c(2,3)])
    show ?thesis
      unfolding first snd_conv fst_conv second using k
      by (simp add: s1_def new_calls_def create_calls_def)
  qed
  have p4: "fst (create_knowledge_if_not_exists env name description data access_control s)
          = Some i
        \<and> fst (create_knowledge_if_not_exists env name description data access_control
               (snd (create_knowledge_if_not_exists env name description data access_control s)))
          = Some i
        \<and> create_calls (new_calls s
             (snd (create_knowledge_if_not_exists env name description data access_control
               (snd (create_knowledge_if_not_exists env name description data access_control
                  s))))) = [name]"
    if h: "serve env ListKnowledge (world s) = (rd, wd)
        \<and> \<not> (status rd = 200
              \<and> find (\<lambda>kb. kb_name kb = Some name) (body_kbs rd) \<noteq> None)
        \<and> serve env (CreateKnowledge name description (or_empty data) (or_empty access_control))
             wd = (rb, wb)
        \<and> status rb = 200 \<and> body_id rb = Some i \<and> i \<noteq> []
        \<and> serve env ListKnowledge wb = (re, we) \<and> status re = 200
        \<and> find (\<lambda>kb. kb_name kb = Some name) (body_kbs re) = Some kb''
        \<and> kb_id kb'' = body_id rb"
  proof -
    from h have a: "serve env ListKnowledge (world s) = (rd, wd)"
        "\<not> (status rd = 200
              \<and> find (\<lambda>kb. kb_name kb = Some name) (body_kbs rd) \<noteq> None)"
        "serve env (CreateKnowledge name description (or_empty data) (or_empty access_control))
             wd = (rb, wb)"
        "status rb = 200" "body_id rb = Some i" "i \<noteq> []"
      and c: "serve env ListKnowledge wb = (re, we)" "status re = 200"
        "find (\<lambda>kb. kb_name kb = Some name) (body_kbs re) = Some kb''"
      and k: "kb_id kb'' = body_id rb"
      by simp_all
    define s1 where "s1 = s\<lparr>world := wb,
                calls := calls s @ [(ListKnowledge, rd),
                  (CreateKnowledge name description (or_empty data) (or_empty access_control),
                   rb)]\<rparr>"
    have first: "create_knowledge_if_not_exists env name description data access_control s
        = (Some i, s1)"
      unfolding s1_def by (rule create_created [OF a])
    have c1: "serve env ListKnowledge (world s1) = (re, we)" using c(1) by (simp add: s1_def)
    have second: "create_knowledge_if_not_exists env name description data access_control s1
        = (kb_id kb'', s1\<lparr>world := we, calls := calls s1 @ [(ListKnowledge, re)]\<rparr>)"
      by (rule create_found [OF c1 c(2,3)])
    show ?thesis
      unfolding first snd_conv fst_conv second using k a(5)
      by (simp add: s1_def new_calls_def create_calls_def)
  qed
  note p2 = create_calls_of_create [of s env name description data access_control]
  note p5 = store_create_twice [of l name description data access_control st]
  show ?thesis
    by (intro conjI impI p1 p2 conjunct1 [OF p5] conjunct2 [OF p5];
        (elim p3 [THEN conjunct1] p3 [THEN conjunct2, THEN conjunct1]
           p3 [THEN conjunct2, THEN conjunct2] p4 [THEN conjunct1]
           p4 [THEN conjunct2, THEN conjunct1] p4 [THEN conjunct2, THEN conjunct2])?)
qed


theorem create_knowledge_first_match_witness:
  "fst (create_knowledge_if_not_exists (store_remote []) ''docs'' ''about'' None None
          (start (store_with ''kb'' ''docs'' []))) = Some ''kb''
   \<and> fst (create_knowledge_if_not_exists (store_remote []) ''docs'' ''about'' None None
          (snd (create_knowledge_if_not_exists (store_remote []) ''docs'' ''about'' None None
             (start (store_with ''kb'' ''docs'' []))))) = Some ''kb''
   \<and> create_calls (new_calls (start (store_with ''kb'' ''docs'' []))
        (snd (create_knowledge_if_not_exists (store_remote []) ''docs'' ''about'' None None
          (snd (create_knowledge_if_not_exists (store_remote []) ''docs'' ''about'' None None
             (start (store_with ''kb'' ''docs'' [])))))))
       = []
   \<and> fst (create_knowledge_if_not_exists (store_remote []) ''docs'' ''about'' None None
           (start empty_store)) = Some ''id-''
   \<and> fst (create_knowledge_if_not_exists (store_remote []) ''docs'' ''about'' None None
        (snd (create_knowledge_if_not_exists (store_remote []) ''docs'' ''about'' None None
           (start empty_store)))) = Some ''id-''
   \<and> create_calls (new_calls (start empty_store)
        (snd (create_knowledge_if_not_exists (store_remote []) ''docs'' ''about'' None None
          (snd (create_knowledge_if_not_exists (store_remote []) ''docs'' ''about'' None None
             (start empty_store))))))
       = [''docs'']
   \<and> length (filter (\<lambda>b. s_name b = ''docs'')
        (bases (world (snd (create_knowledge_if_not_exists (store_remote []) ''docs'' ''about''
           None None
           (snd (create_knowledge_if_not_exists (store_remote []) ''docs'' ''about'' None None
                  (start empty_store))))))))
       = 1"
proof -
  define env :: "store remote" where "env = store_remote []"
  define kb where "kb = \<lparr>kb_id = Some ''kb'', kb_name = Some ''docs''\<rparr>"
  define ra where "ra = ok_reply\<lparr>body_kbs := [kb]\<rparr>"
  define wa where "wa = store_with ''kb'' ''docs'' []"
  have hA: "serve env ListKnowledge (world (start wa)) = (ra, wa) \<and> status ra = 200
        \<and> find (\<lambda>kb. kb_name kb = Some ''docs'') (body_kbs ra) = Some kb
        \<and> serve env ListKnowledge wa = (ra, wa) \<and> status ra = 200
        \<and> find (\<lambda>kb. kb_name kb = Some ''docs'') (body_kbs ra) = Some kb
        \<and> kb_id kb = kb_id kb"
    by (simp add: env_def kb_def ra_def wa_def store_remote_def start_def store_with_def
          ok_reply_def)
  define kn where "kn = \<lparr>kb_id = Some ''id-'', kb_name = Some ''docs''\<rparr>"
  define rd where "rd = ok_reply\<lparr>body_kbs := []\<rparr>"
  define rb where "rb = ok_reply\<lparr>body_id := Some ''id-''\<rparr>"
  define wb where "wb = \<lparr>bases = [\<lparr>s_id = ''id-'', s_name = ''docs'', s_files = []\<rparr>],
                         uploaded = [], next_id = 1\<rparr>"
  define re where "re = ok_reply\<lparr>body_kbs := [kn]\<rparr>"
  have hB: "serve env ListKnowledge (world (start empty_store)) = (rd, empty_store)
        \<and> \<not> (status rd = 200
              \<and> find (\<lambda>kb. kb_name kb = Some ''docs'') (body_kbs rd) \<noteq> None)
        \<and> serve env (CreateKnowledge ''docs'' ''about'' (or_empty None) (or_empty None))
             empty_store = (rb, wb)
        \<and> status rb = 200 \<and> body_id rb = Some ''id-'' \<and> ''id-'' \<noteq> []
        \<and> serve env ListKnowledge wb = (re, wb) \<and> status re = 200
        \<and> find (\<lambda>kb. kb_name kb = Some ''docs'') (body_kbs re) = Some kn
        \<and> kb_id kn = body_id rb"
    by (simp add: env_def kn_def rd_def rb_def wb_def re_def store_remote_def start_def
          empty_store_def ok_reply_def fresh_id_def)
  note A = create_knowledge_first_match [where env = env and s = "start wa"
      and name = "''docs''" and description = "''about''" and data = None
      and access_control = None and ra = ra and wa = wa and kb = kb and rc = ra and wc = wa
      and kb' = kb, THEN conjunct2, THEN conjunct2, THEN conjunct1, THEN mp, OF hA]
  note B = create_knowledge_first_match [where env = env and s = "start empty_store"
      and name = "''docs''" and description = "''about''" and data = None
      and access_control = None and rd = rd and wd = empty_store and rb = rb and wb = wb
      and i = "''id-''" and re = re and we = wb and kb'' = kn,
      THEN conjunct2, THEN conjunct2, THEN conjunct2, THEN conjunct1, THEN mp, OF hB]
  note C = create_knowledge_first_match [where l = "[]" and st = empty_store
      and name = "''docs''" and description = "''about''" and data = None
      and access_control = None,
      THEN conjunct2, THEN conjunct2, THEN conjunct2, THEN conjunct2, THEN conjunct2]
  show ?thesis
    using A B C unfolding env_def wa_def kb_def by (simp add: empty_store_def)
qed

subsection \<open>\<open>add_files\<close>: the selection, and runs that differ in the log\<close>

lemma select_uploads_fst:
  "fst (select_uploads E docs s)
     = (map fst (filter (is_new E) docs), map snd (filter (is_new E) docs))"
  by (induction docs arbitrary: s) (auto simp: is_new_def case_prod_beta)

lemma select_uploads_snd:
  "snd (select_uploads E docs s)
     = s\<lparr>logs := logs s @ map (\<lambda>d. skip_warning (fst d)) (filter (\<lambda>d. \<not> is_new E d) docs)\<rparr>"
  by (induction docs arbitrary: s)
     (auto simp: is_new_def case_prod_beta log_record_def skip_warning_def)

lemma same_remote_refl: "same_remote s s"
  by (simp add: same_remote_def)

lemma same_remote_logs: "same_remote (s\<lparr>logs := l\<rparr>) (s\<lparr>logs := l'\<rparr>)"
  by (simp add: same_remote_def)

lemma same_remote_log_record:
  "same_remote s t \<Longrightarrow> same_remote (log_record lv msg s) (log_record lv' msg' t)"
  by (simp add: same_remote_def log_record_def)

lemma same_remote_log_record_left:
  "same_remote s t \<Longrightarrow> same_remote (log_record lv msg s) t"
  by (simp add: same_remote_def log_record_def)

lemma send_same:
  assumes "same_remote s t"
  shows "fst (send env rq s) = fst (send env rq t)
         \<and> same_remote (snd (send env rq s)) (snd (send env rq t))"
  using assms by (simp add: send_def same_remote_def case_prod_beta)

lemma send_file_same:
  assumes "same_remote s t"
  shows "fst (send_file env p md s) = fst (send_file env p md t)
         \<and> same_remote (snd (send_file env p md s)) (snd (send_file env p md t))"
  using send_same [OF assms, of env "UploadFile p md"] assms
  by (simp add: send_file_def case_prod_beta Let_def same_remote_log_record)

lemma gather_same:
  assumes "same_remote s t"
  shows "fst (gather env tasks s) = fst (gather env tasks t)
         \<and> same_remote (snd (gather env tasks s)) (snd (gather env tasks t))"
  using assms
proof (induction tasks arbitrary: s t)
  case Nil
  then show ?case by simp
next
  case (Cons a tasks)
  obtain p md where a: "a = (p, md)" by (cases a)
  note h = send_file_same [OF Cons.prems, of env p md]
  from h have "same_remote (snd (send_file env p md s)) (snd (send_file env p md t))" by simp
  from Cons.IH [OF this] h show ?case
    by (simp add: a case_prod_beta)
qed

lemma upload_files_batch_same:
  assumes "same_remote s t"
  shows "fst (upload_files_batch env ps mds s) = fst (upload_files_batch env ps mds t)
         \<and> same_remote (snd (upload_files_batch env ps mds s))
              (snd (upload_files_batch env ps mds t))"
  using gather_same [OF assms] assms
  by (simp add: upload_files_batch_def case_prod_beta split: sum.splits)

lemma add_files_to_kb_batch_same:
  assumes "same_remote s t"
  shows "fst (add_files_to_kb_batch env kid ids s) = fst (add_files_to_kb_batch env kid ids t)
         \<and> same_remote (snd (add_files_to_kb_batch env kid ids s))
              (snd (add_files_to_kb_batch env kid ids t))"
  using send_same [OF assms, of env "BatchAddFiles kid ids"] assms
  by (simp add: add_files_to_kb_batch_def case_prod_beta Let_def same_remote_log_record)

lemma add_batches_Cons_Inl:
  assumes "upload_files_batch env (take bs (drop i P)) (take bs (drop i M)) s = (Inl e, s1)"
  shows "add_batches env kid P M bs (i # starts) s = (Inl e, s1)"
  using assms by (simp add: Let_def)

lemma add_batches_Cons_Inr:
  assumes "upload_files_batch env (take bs (drop i P)) (take bs (drop i M)) s = (Inr ids, s1)"
    and "(if ids \<noteq> [] then add_files_to_kb_batch env kid ids s1 else ([], s1)) = (b, s2)"
    and "add_batches env kid P M bs starts s2 = (r, s3)"
  shows "add_batches env kid P M bs (i # starts) s
           = (case r of Inl e \<Rightarrow> (Inl e, s3) | Inr results \<Rightarrow> (Inr (b @ results), s3))"
  using assms by (simp add: Let_def split: sum.splits)

lemma add_batches_same:
  assumes "same_remote s t"
  shows "fst (add_batches env kid P M bs starts s) = fst (add_batches env kid P M bs starts t)
         \<and> same_remote (snd (add_batches env kid P M bs starts s))
              (snd (add_batches env kid P M bs starts t))"
  using assms
proof (induction starts arbitrary: s t)
  case Nil
  then show ?case by simp
next
  case (Cons i starts)
  obtain r s1 where us: "upload_files_batch env (take bs (drop i P)) (take bs (drop i M)) s = (r, s1)"
    by (cases "upload_files_batch env (take bs (drop i P)) (take bs (drop i M)) s")
  obtain r' t1 where ut: "upload_files_batch env (take bs (drop i P)) (take bs (drop i M)) t = (r', t1)"
    by (cases "upload_files_batch env (take bs (drop i P)) (take bs (drop i M)) t")
  have u: "r' = r" "same_remote s1 t1"
    using upload_files_batch_same [OF Cons.prems, of env "take bs (drop i P)" "take bs (drop i M)"]
    by (simp_all add: us ut)
  show ?case
  proof (cases r)
    case (Inl e)
    then show ?thesis
      using u add_batches_Cons_Inl [of env bs i P M s e s1 kid starts]
        add_batches_Cons_Inl [of env bs i P M t e t1 kid starts] us ut
      by simp
  next
    case (Inr ids)
    obtain b s2 where as: "(if ids \<noteq> [] then add_files_to_kb_batch env kid ids s1 else ([], s1)) = (b, s2)"
      by (cases "if ids \<noteq> [] then add_files_to_kb_batch env kid ids s1 else ([], s1)")
    obtain b' t2 where at: "(if ids \<noteq> [] then add_files_to_kb_batch env kid ids t1 else ([], t1)) = (b', t2)"
      by (cases "if ids \<noteq> [] then add_files_to_kb_batch env kid ids t1 else ([], t1)")
    have a: "b' = b" "same_remote s2 t2"
      using add_files_to_kb_batch_same [OF u(2), of env kid ids] u(2) as at
      by (auto split: if_splits)
    obtain q s3 where rs: "add_batches env kid P M bs starts s2 = (q, s3)"
      by (cases "add_batches env kid P M bs starts s2")
    obtain q' t3 where rt: "add_batches env kid P M bs starts t2 = (q', t3)"
      by (cases "add_batches env kid P M bs starts t2")
    have ih: "q' = q" "same_remote s3 t3"
      using Cons.IH [OF a(2)] by (simp_all add: rs rt)
    have "add_batches env kid P M bs (i # starts) s
           = (case q of Inl e \<Rightarrow> (Inl e, s3) | Inr results \<Rightarrow> (Inr (b @ results), s3))"
      using us Inr as rs by (intro add_batches_Cons_Inr) simp_all
    moreover have "add_batches env kid P M bs (i # starts) t
           = (case q of Inl e \<Rightarrow> (Inl e, t3) | Inr results \<Rightarrow> (Inr (b @ results), t3))"
      using ut Inr u(1) at a(1) rt ih(1) by (intro add_batches_Cons_Inr) simp_all
    ultimately show ?thesis using ih(2) by (simp split: sum.splits)
  qed
qed

subsection \<open>What the operations add to the calls\<close>

lemma extendsI:
  assumes "calls s' = calls s @ cs" "logs s' = logs s @ l"
  shows "extends s s'" "new_calls s s' = cs" "new_logs s s' = l"
  using assms by (simp_all add: extends_def new_calls_def new_logs_def)

lemma extends_calls: "extends s s' \<Longrightarrow> calls s' = calls s @ new_calls s s'"
  unfolding extends_def new_calls_def by (metis append_take_drop_id)

lemma extends_logs: "extends s s' \<Longrightarrow> logs s' = logs s @ new_logs s s'"
  unfolding extends_def new_logs_def by (metis append_take_drop_id)

lemma extends_refl: "extends s s" "new_calls s s = []" "new_logs s s = []"
  by (simp_all add: extends_def new_calls_def new_logs_def)

lemma extends_trans:
  assumes "extends s s1" "extends s1 s2"
  shows "extends s s2" "new_calls s s2 = new_calls s s1 @ new_calls s1 s2"
    "new_logs s s2 = new_logs s s1 @ new_logs s1 s2"
proof -
  have c: "calls s2 = calls s @ (new_calls s s1 @ new_calls s1 s2)"
    using extends_calls [OF assms(1)] extends_calls [OF assms(2)] by simp
  have l: "logs s2 = logs s @ (new_logs s s1 @ new_logs s1 s2)"
    using extends_logs [OF assms(1)] extends_logs [OF assms(2)] by simp
  show "extends s s2" "new_calls s s2 = new_calls s s1 @ new_calls s1 s2"
    "new_logs s s2 = new_logs s s1 @ new_logs s1 s2"
    using extendsI [OF c l] by simp_all
qed

lemma upload_calls_append [simp]: "upload_calls (xs @ ys) = upload_calls xs @ upload_calls ys"
  by (simp add: upload_calls_def)

lemma attach_calls_append [simp]: "attach_calls (xs @ ys) = attach_calls xs @ attach_calls ys"
  by (simp add: attach_calls_def)

lemma upload_calls_Nil [simp]: "upload_calls [] = []"
  by (simp add: upload_calls_def)

lemma attach_calls_Nil [simp]: "attach_calls [] = []"
  by (simp add: attach_calls_def)

lemma log_record_effect:
  "extends s (log_record lv msg s)" "new_calls s (log_record lv msg s) = []"
  "new_logs s (log_record lv msg s) = [(lv, msg)]"
  by (simp_all add: extends_def new_calls_def new_logs_def log_record_def)

lemma send_effect:
  assumes "serve env rq (world s) = (rp, w)"
  shows "send env rq s = (rp, s\<lparr>world := w, calls := calls s @ [(rq, rp)]\<rparr>)"
  using assms by (simp add: send_def)

text \<open>\<open>send_file\<close>: what it sends and what it returns.\<close>

lemma send_file_missing:
  assumes "\<not> path_exists env p"
  shows "fst (send_file env p md s) = None"
    "extends s (snd (send_file env p md s))"
    "new_calls s (snd (send_file env p md s)) = []"
    "new_logs s (snd (send_file env p md s)) = [(ERROR, ''File not found: '' @ p)]"
  using assms by (simp_all add: send_file_def log_record_effect)

lemma send_file_sent:
  assumes "path_exists env p" "serve env (UploadFile p md) (world s) = (rp, w)"
  shows "fst (send_file env p md s)
           = (if status rp = 200 \<and> truthy (body_id rp) then body_id rp else None)"
    "extends s (snd (send_file env p md s))"
    "new_calls s (snd (send_file env p md s)) = [(UploadFile p md, rp)]"
    "world (snd (send_file env p md s)) = w"
  using assms
  by (simp_all add: send_file_def send_effect extends_def new_calls_def log_record_def)

lemma send_file_effect:
  "extends s (snd (send_file env p md s))"
  "map (\<lambda>(q, m, i). (q, m)) (upload_calls (new_calls s (snd (send_file env p md s))))
     = (if path_exists env p then [(p, md)] else [])"
  "attach_calls (new_calls s (snd (send_file env p md s))) = []"
proof -
  obtain rp w where sv: "serve env (UploadFile p md) (world s) = (rp, w)"
    by (cases "serve env (UploadFile p md) (world s)")
  have "extends s (snd (send_file env p md s))
    \<and> map (\<lambda>(q, m, i). (q, m)) (upload_calls (new_calls s (snd (send_file env p md s))))
     = (if path_exists env p then [(p, md)] else [])
    \<and> attach_calls (new_calls s (snd (send_file env p md s))) = []"
  proof (cases "path_exists env p")
    case True
    show ?thesis
      using send_file_sent(2,3) [OF True sv] True
      by (simp add: upload_calls_def attach_calls_def)
  next
    case False
    show ?thesis
      using send_file_missing(2,3) [OF False, where md = md and s = s] False
      by simp
  qed
  then show "extends s (snd (send_file env p md s))"
  "map (\<lambda>(q, m, i). (q, m)) (upload_calls (new_calls s (snd (send_file env p md s))))
     = (if path_exists env p then [(p, md)] else [])"
  "attach_calls (new_calls s (snd (send_file env p md s))) = []"
    by simp_all
qed

lemma gather_effect:
  "extends s (snd (gather env tasks s))
   \<and> map (\<lambda>(q, m, i). (q, m)) (upload_calls (new_calls s (snd (gather env tasks s))))
       = filter (\<lambda>(q, m). path_exists env q) tasks
   \<and> attach_calls (new_calls s (snd (gather env tasks s))) = []"
proof (induction tasks arbitrary: s)
  case Nil
  then show ?case by (simp add: extends_refl)
next
  case (Cons a tasks)
  obtain p md where a: "a = (p, md)" by (cases a)
  obtain fid s1 where sf: "send_file env p md s = (fid, s1)" by (cases "send_file env p md s")
  obtain fids s2 where g: "gather env tasks s1 = (fids, s2)" by (cases "gather env tasks s1")
  have e1: "extends s s1"
    "map (\<lambda>(q, m, i). (q, m)) (upload_calls (new_calls s s1)) = (if path_exists env p then [(p, md)] else [])"
    "attach_calls (new_calls s s1) = []"
    using send_file_effect [of s env p md] by (simp_all add: sf)
  have e2: "extends s1 s2"
    "map (\<lambda>(q, m, i). (q, m)) (upload_calls (new_calls s1 s2)) = filter (\<lambda>(q, m). path_exists env q) tasks"
    "attach_calls (new_calls s1 s2) = []"
    using Cons.IH [of s1] by (simp_all add: g)
  have r: "gather env ((p, md) # tasks) s = (fid # fids, s2)"
    by (simp add: sf g)
  show ?case
    unfolding a r using extends_trans [OF e1(1) e2(1)] e1 e2 by simp
qed

lemma upload_tasks_zip:
  "length ps + i \<le> length mds \<Longrightarrow> upload_tasks ps mds i = Inr (zip ps (map Some (drop i mds)))"
proof (induction ps arbitrary: i)
  case Nil
  then show ?case by simp
next
  case (Cons p ps)
  then have i: "i < length mds" "mds \<noteq> []" by auto
  have "upload_tasks ps mds (Suc i) = Inr (zip ps (map Some (drop (Suc i) mds)))"
    using Cons by simp
  moreover have "drop i mds = mds ! i # drop (Suc i) mds"
    using i by (simp add: Cons_nth_drop_Suc)
  ultimately show ?case using i by simp
qed

lemma zip_Some_docs:
  "zip ps (map Some ms) = map (\<lambda>(p, m). (p, Some m)) (zip ps ms)"
  by (simp add: zip_map2 case_prod_beta)

lemma upload_files_batch_effect:
  assumes "length ps = length mds"
  shows "fst (upload_files_batch env ps mds s)
           = Inr (map the (filter truthy (fst (gather env (map (\<lambda>(p, m). (p, Some m)) (zip ps mds)) s))))
   \<and> extends s (snd (upload_files_batch env ps mds s))
   \<and> map (\<lambda>(q, m, i). (q, m)) (upload_calls (new_calls s (snd (upload_files_batch env ps mds s))))
       = filter (\<lambda>(q, m). path_exists env q) (map (\<lambda>(p, m). (p, Some m)) (zip ps mds))
   \<and> attach_calls (new_calls s (snd (upload_files_batch env ps mds s))) = []"
proof -
  have t: "upload_tasks ps mds 0 = Inr (map (\<lambda>(p, m). (p, Some m)) (zip ps mds))"
    using upload_tasks_zip [of ps 0 mds] assms by (simp add: zip_Some_docs)
  show ?thesis
    using gather_effect [of s env "map (\<lambda>(p, m). (p, Some m)) (zip ps mds)"]
    by (simp add: upload_files_batch_def t case_prod_beta)
qed

lemma add_files_to_kb_batch_effect:
  "extends s (snd (add_files_to_kb_batch env kid ids s))
   \<and> upload_calls (new_calls s (snd (add_files_to_kb_batch env kid ids s))) = []
   \<and> attach_calls (new_calls s (snd (add_files_to_kb_batch env kid ids s)))
       = (if ids = [] then [] else [ids])"
  by (simp add: add_files_to_kb_batch_def send_def case_prod_beta Let_def log_record_def
        extends_def new_calls_def upload_calls_def attach_calls_def)

lemma take_drop_zip: "zip (take n (drop j ps)) (take n (drop j ms)) = take n (drop j (zip ps ms))"
  by (simp add: take_zip drop_zip)

lemma add_batches_effect:
  assumes "length P = length M"
  shows "(\<exists>rs. fst (add_batches env kid P M bs starts s) = Inr rs)
   \<and> extends s (snd (add_batches env kid P M bs starts s))
   \<and> map (\<lambda>(q, m, i). (q, m)) (upload_calls (new_calls s (snd (add_batches env kid P M bs starts s))))
       = filter (\<lambda>(q, m). path_exists env q)
           (map (\<lambda>(p, m). (p, Some m)) (concat (map (\<lambda>j. take bs (drop j (zip P M))) starts)))"
proof (induction starts arbitrary: s)
  case Nil
  then show ?case by (simp add: extends_refl)
next
  case (Cons i starts)
  let ?ps = "take bs (drop i P)" and ?ms = "take bs (drop i M)"
  have len: "length ?ps = length ?ms" using assms by simp
  obtain r s1 where us: "upload_files_batch env ?ps ?ms s = (r, s1)"
    by (cases "upload_files_batch env ?ps ?ms s")
  from upload_files_batch_effect [OF len, of env s] us
  obtain ids where r: "r = Inr ids" and e1: "extends s s1"
    and u1: "map (\<lambda>(q, m, i). (q, m)) (upload_calls (new_calls s s1))
       = filter (\<lambda>(q, m). path_exists env q) (map (\<lambda>(p, m). (p, Some m)) (take bs (drop i (zip P M))))"
    by (auto simp: take_drop_zip)
  obtain b s2 where as: "(if ids \<noteq> [] then add_files_to_kb_batch env kid ids s1 else ([], s1)) = (b, s2)"
    by (cases "if ids \<noteq> [] then add_files_to_kb_batch env kid ids s1 else ([], s1)")
  have e2: "extends s1 s2" and u2: "upload_calls (new_calls s1 s2) = []"
    using add_files_to_kb_batch_effect [of s1 env kid ids] as
    by (auto simp: extends_refl split: if_splits)
  obtain q s3 where rs: "add_batches env kid P M bs starts s2 = (q, s3)"
    by (cases "add_batches env kid P M bs starts s2")
  from Cons.IH [of s2] rs
  obtain rest where q: "q = Inr rest" and e3: "extends s2 s3"
    and u3: "map (\<lambda>(q, m, i). (q, m)) (upload_calls (new_calls s2 s3))
       = filter (\<lambda>(q, m). path_exists env q)
           (map (\<lambda>(p, m). (p, Some m)) (concat (map (\<lambda>j. take bs (drop j (zip P M))) starts)))"
    by auto
  have res: "add_batches env kid P M bs (i # starts) s = (Inr (b @ rest), s3)"
    using add_batches_Cons_Inr [OF us [unfolded r] as rs] q by simp
  note t12 = extends_trans [OF e1 e2]
  note t13 = extends_trans [OF t12(1) e3]
  show ?case
    unfolding res using t13 t12 u1 u2 u3 by simp
qed

subsection \<open>\<open>add_files\<close>: what a call uploads, logs and returns\<close>

lemma retrieve_effect:
  "extends s (snd (retrieve_files_in_knowledge env kid s))
   \<and> upload_calls (new_calls s (snd (retrieve_files_in_knowledge env kid s))) = []
   \<and> attach_calls (new_calls s (snd (retrieve_files_in_knowledge env kid s))) = []"
  by (simp add: retrieve_files_in_knowledge_def send_def case_prod_beta Let_def log_record_def
        extends_def new_calls_def upload_calls_def attach_calls_def)

lemma select_uploads_effect:
  "extends s (snd (select_uploads E docs s))"
  "new_calls s (snd (select_uploads E docs s)) = []"
  "new_logs s (snd (select_uploads E docs s))
     = map (\<lambda>d. skip_warning (fst d)) (filter (\<lambda>d. \<not> is_new E d) docs)"
  by (simp_all add: select_uploads_snd extends_def new_calls_def new_logs_def)

lemma select_uploads_same: "same_remote (snd (select_uploads E docs s)) s"
  by (simp add: select_uploads_snd same_remote_def)

text \<open>\<open>add_files\<close> with a list of metadata, in terms of the documents it selects.\<close>

lemma add_files_list:
  "add_files env self kid file_paths (MetadataList mds) s =
     (case py_range
             (length (filter (is_new (set (existing_urls
                (fst (retrieve_files_in_knowledge env kid s))))) (zip file_paths mds)))
             (batch_size self) of
        Inl e \<Rightarrow>
          (Inl e, snd (select_uploads (set (existing_urls
                (fst (retrieve_files_in_knowledge env kid s)))) (zip file_paths mds)
                (snd (retrieve_files_in_knowledge env kid s))))
      | Inr starts \<Rightarrow>
          add_batches env kid
            (map fst (filter (is_new (set (existing_urls
                (fst (retrieve_files_in_knowledge env kid s))))) (zip file_paths mds)))
            (map snd (filter (is_new (set (existing_urls
                (fst (retrieve_files_in_knowledge env kid s))))) (zip file_paths mds)))
            (nat (batch_size self)) starts
            (snd (select_uploads (set (existing_urls
                (fst (retrieve_files_in_knowledge env kid s)))) (zip file_paths mds)
                (snd (retrieve_files_in_knowledge env kid s)))))"
proof -
  obtain kfs s1 where r: "retrieve_files_in_knowledge env kid s = (kfs, s1)"
    by (cases "retrieve_files_in_knowledge env kid s")
  obtain sel s2 where sl: "select_uploads (set (existing_urls kfs)) (zip file_paths mds) s1 = (sel, s2)"
    by (cases "select_uploads (set (existing_urls kfs)) (zip file_paths mds) s1")
  have sel: "sel = (map fst (filter (is_new (set (existing_urls kfs))) (zip file_paths mds)),
                    map snd (filter (is_new (set (existing_urls kfs))) (zip file_paths mds)))"
    using select_uploads_fst [of "set (existing_urls kfs)" "zip file_paths mds" s1] sl by simp
  show ?thesis
    by (simp add: add_files_def r sl sel split: sum.splits)
qed

lemma add_files_OneMetadata:
  "add_files env self kid file_paths (OneMetadata m) s
     = add_files env self kid file_paths (MetadataList (replicate (length file_paths) m)) s"
  by (simp add: add_files_def)


lemma add_files_effect:
  assumes r: "retrieve_files_in_knowledge env kid s = (kfs, s1)"
    and a: "add_files env self kid file_paths (MetadataList mds) s = (res, s')"
  shows "extends s s'"
    and "set (map (\<lambda>(q, m, i). (q, m)) (upload_calls (new_calls s s')))
           \<subseteq> (\<lambda>(p, m). (p, Some m)) ` set (filter (is_new (set (existing_urls kfs))) (zip file_paths mds))"
    and "set (map (\<lambda>d. skip_warning (fst d))
               (filter (\<lambda>d. \<not> is_new (set (existing_urls kfs)) d) (zip file_paths mds)))
           \<subseteq> set (new_logs s s')"
proof -
  define E where "E = set (existing_urls kfs)"
  define docs where "docs = zip file_paths mds"
  define sel where "sel = filter (is_new E) docs"
  define s2 where "s2 = snd (select_uploads E docs s1)"
  define warnings where
    "warnings = map (\<lambda>d. skip_warning (fst d)) (filter (\<lambda>d. \<not> is_new E d) docs)"
  have e1: "extends s s1" "upload_calls (new_calls s s1) = []"
    using retrieve_effect [of s env kid] by (simp_all add: r)
  have e2: "extends s1 s2" "new_calls s1 s2 = []" "new_logs s1 s2 = warnings"
    unfolding s2_def warnings_def by (rule select_uploads_effect)+
  note t12 = extends_trans [OF e1(1) e2(1)]
  have u12: "upload_calls (new_calls s s2) = []" using t12(2) e1(2) e2(2) by simp
  have l12: "set warnings \<subseteq> set (new_logs s s2)" using t12(3) e2(3) by simp
  have al: "add_files env self kid file_paths (MetadataList mds) s =
     (case py_range (length sel) (batch_size self) of
        Inl e \<Rightarrow> (Inl e, s2)
      | Inr starts \<Rightarrow>
          add_batches env kid (map fst sel) (map snd sel) (nat (batch_size self)) starts s2)"
    unfolding add_files_list sel_def s2_def E_def docs_def r fst_conv snd_conv ..
  have "extends s s'
    \<and> set (map (\<lambda>(q, m, i). (q, m)) (upload_calls (new_calls s s')))
           \<subseteq> (\<lambda>(p, m). (p, Some m)) ` set sel
    \<and> set warnings \<subseteq> set (new_logs s s')"
  proof (cases "py_range (length sel) (batch_size self)")
    case (Inl e)
    then have "s' = s2" using a unfolding al by simp
    then show ?thesis using t12(1) u12 l12 by simp
  next
    case (Inr starts)
    define s3 where
      "s3 = snd (add_batches env kid (map fst sel) (map snd sel) (nat (batch_size self)) starts s2)"
    have s': "s' = s3" using a Inr unfolding al s3_def by simp
    have len: "length (map fst sel) = length (map snd sel)" by simp
    have z: "zip (map fst sel) (map snd sel) = sel" by (simp add: zip_map_fst_snd)
    have e3: "extends s2 s3"
      and u3: "map (\<lambda>(q, m, i). (q, m)) (upload_calls (new_calls s2 s3))
       = filter (\<lambda>(q, m). path_exists env q)
           (map (\<lambda>(p, m). (p, Some m))
              (concat (map (\<lambda>j. take (nat (batch_size self)) (drop j sel)) starts)))"
      using add_batches_effect [OF len, of env kid "nat (batch_size self)" starts s2]
      unfolding s3_def z by simp_all
    note t13 = extends_trans [OF t12(1) e3]
    have "set (concat (map (\<lambda>j. take (nat (batch_size self)) (drop j sel)) starts)) \<subseteq> set sel"
      by (auto dest!: in_set_takeD in_set_dropD)
    then have sub: "set (map (\<lambda>(q, m, i). (q, m)) (upload_calls (new_calls s2 s3)))
           \<subseteq> (\<lambda>(p, m). (p, Some m)) ` set sel"
      unfolding u3 by auto
    have uc: "upload_calls (new_calls s s3) = upload_calls (new_calls s2 s3)"
      using t13(2) u12 by simp
    have lg: "set warnings \<subseteq> set (new_logs s s3)"
      using t13(3) l12 by auto
    show ?thesis
      unfolding s' uc using t13(1) sub lg by simp
  qed
  then show "extends s s'"
    and "set (map (\<lambda>(q, m, i). (q, m)) (upload_calls (new_calls s s')))
           \<subseteq> (\<lambda>(p, m). (p, Some m)) ` set (filter (is_new (set (existing_urls kfs))) (zip file_paths mds))"
    and "set (map (\<lambda>d. skip_warning (fst d))
               (filter (\<lambda>d. \<not> is_new (set (existing_urls kfs)) d) (zip file_paths mds)))
           \<subseteq> set (new_logs s s')"
    unfolding sel_def warnings_def E_def docs_def by simp_all
qed

lemma add_files_no_upload:
  assumes "\<not> is_new (set (existing_urls (fst (retrieve_files_in_knowledge env kid s)))) (p, m)"
  shows "(q, Some m, i) \<notin> set (upload_calls (new_calls s
           (snd (add_files env self kid file_paths (MetadataList mds) s))))"
proof
  assume in_calls: "(q, Some m, i) \<in> set (upload_calls (new_calls s
           (snd (add_files env self kid file_paths (MetadataList mds) s))))"
  obtain kfs s1 where r: "retrieve_files_in_knowledge env kid s = (kfs, s1)"
    by (cases "retrieve_files_in_knowledge env kid s")
  obtain res s' where a: "add_files env self kid file_paths (MetadataList mds) s = (res, s')"
    by (cases "add_files env self kid file_paths (MetadataList mds) s")
  have "(q, Some m) \<in> set (map (\<lambda>(q, m, i). (q, m)) (upload_calls (new_calls s s')))"
    using in_calls a by force
  then have "(q, Some m) \<in> (\<lambda>(p, m). (p, Some m)) ` set (filter (is_new (set (existing_urls kfs))) (zip file_paths mds))"
    using add_files_effect(2) [OF r a] by blast
  then have "is_new (set (existing_urls kfs)) (q, m)" by auto
  then show False using assms r by (simp add: is_new_def)
qed

lemma add_files_warning:
  assumes "(p, m) \<in> set (zip file_paths mds)"
    and "\<not> is_new (set (existing_urls (fst (retrieve_files_in_knowledge env kid s)))) (p, m)"
  shows "skip_warning p \<in> set (new_logs s
           (snd (add_files env self kid file_paths (MetadataList mds) s)))"
proof -
  obtain kfs s1 where r: "retrieve_files_in_knowledge env kid s = (kfs, s1)"
    by (cases "retrieve_files_in_knowledge env kid s")
  obtain res s' where a: "add_files env self kid file_paths (MetadataList mds) s = (res, s')"
    by (cases "add_files env self kid file_paths (MetadataList mds) s")
  have "skip_warning (fst (p, m)) \<in> set (map (\<lambda>d. skip_warning (fst d))
               (filter (\<lambda>d. \<not> is_new (set (existing_urls kfs)) d) (zip file_paths mds)))"
    using assms r by (auto simp: image_iff intro!: bexI [of _ "(p, m)"])
  then show ?thesis using add_files_effect(3) [OF r a] a by auto
qed

lemma add_files_filter:
  assumes keep: "\<And>d. d \<in> set (zip file_paths mds) \<Longrightarrow>
      is_new (set (existing_urls (fst (retrieve_files_in_knowledge env kid s)))) d \<Longrightarrow> P d"
  shows "fst (add_files env self kid (map fst (filter P (zip file_paths mds)))
                (MetadataList (map snd (filter P (zip file_paths mds)))) s)
           = fst (add_files env self kid file_paths (MetadataList mds) s)
   \<and> same_remote
        (snd (add_files env self kid (map fst (filter P (zip file_paths mds)))
                (MetadataList (map snd (filter P (zip file_paths mds)))) s))
        (snd (add_files env self kid file_paths (MetadataList mds) s))"
proof -
  let ?E = "set (existing_urls (fst (retrieve_files_in_knowledge env kid s)))"
  let ?docs = "zip file_paths mds"
  let ?s1 = "snd (retrieve_files_in_knowledge env kid s)"
  have z: "zip (map fst (filter P ?docs)) (map snd (filter P ?docs)) = filter P ?docs"
    by (simp add: zip_map_fst_snd)
  have f: "filter (is_new ?E) (filter P ?docs) = filter (is_new ?E) ?docs"
    using keep by (auto simp: filter_filter intro!: filter_cong [OF refl])
  have sr: "same_remote (snd (select_uploads ?E (filter P ?docs) ?s1))
              (snd (select_uploads ?E ?docs ?s1))"
    by (simp add: select_uploads_snd same_remote_def)
  have L: "add_files env self kid (map fst (filter P ?docs))
              (MetadataList (map snd (filter P ?docs))) s =
     (case py_range (length (filter (is_new ?E) ?docs)) (batch_size self) of
        Inl e \<Rightarrow> (Inl e, snd (select_uploads ?E (filter P ?docs) ?s1))
      | Inr starts \<Rightarrow>
          add_batches env kid (map fst (filter (is_new ?E) ?docs))
            (map snd (filter (is_new ?E) ?docs)) (nat (batch_size self)) starts
            (snd (select_uploads ?E (filter P ?docs) ?s1)))"
    unfolding add_files_list z f ..
  show ?thesis
  proof (cases "py_range (length (filter (is_new ?E) ?docs)) (batch_size self)")
    case (Inl e)
    show ?thesis unfolding L add_files_list [of env self kid file_paths mds s] Inl
      using sr by simp
  next
    case (Inr starts)
    show ?thesis unfolding L add_files_list [of env self kid file_paths mds s] Inr
      using add_batches_same [OF sr] by simp
  qed
qed

text \<open>
  Claim C10. For every document given to \<open>add_files\<close> whose url is missing or empty
  (falsy): no upload request carries the document's metadata, the warning
  \<^verbatim>\<open>File already exists in knowledge base: <path>, skipping.\<close> is logged for it, and
  the document is dropped from the results without a trace: the call returns what it
  returns on the documents with a truthy url alone, and sends the same requests to the
  same effect on the store.
\<close>

theorem add_files_skips_falsy_url:
  assumes "(p, m) \<in> set (zip file_paths mds)" and "\<not> truthy (url (metadata m))"
  shows "(q, Some m, i) \<notin> set (upload_calls (new_calls s
            (snd (add_files env self kid file_paths (MetadataList mds) s))))
    \<and> skip_warning p \<in> set (new_logs s
            (snd (add_files env self kid file_paths (MetadataList mds) s)))
    \<and> fst (add_files env self kid
              (map fst (filter (\<lambda>d. truthy (url (metadata (snd d)))) (zip file_paths mds)))
              (MetadataList
                 (map snd (filter (\<lambda>d. truthy (url (metadata (snd d)))) (zip file_paths mds)))) s)
         = fst (add_files env self kid file_paths (MetadataList mds) s)
    \<and> same_remote
         (snd (add_files env self kid
              (map fst (filter (\<lambda>d. truthy (url (metadata (snd d)))) (zip file_paths mds)))
              (MetadataList
                 (map snd (filter (\<lambda>d. truthy (url (metadata (snd d)))) (zip file_paths mds)))) s))
         (snd (add_files env self kid file_paths (MetadataList mds) s))"
proof -
  have n: "\<not> is_new (set (existing_urls (fst (retrieve_files_in_knowledge env kid s)))) (p, m)"
    using assms(2) by (simp add: is_new_def)
  show ?thesis
    using add_files_no_upload [OF n] add_files_warning [OF assms(1) n]
      add_files_filter [of file_paths mds env kid s "\<lambda>d. truthy (url (metadata (snd d)))" self]
    by (simp add: is_new_def)
qed

theorem add_files_skips_falsy_url_witness:
  "(''a.txt'', Some (example_metadata (Some [])), Some ''id-'')
       \<notin> set (upload_calls (new_calls (start (store_with ''kb'' ''docs'' []))
            (snd (add_files (store_remote [''a.txt'', ''b.txt'']) example_manager ''kb''
                    [''a.txt'', ''b.txt'']
                    (MetadataList [example_metadata (Some []), example_metadata (Some ''u'')])
                    (start (store_with ''kb'' ''docs'' []))))))
   \<and> skip_warning ''a.txt''
       \<in> set (new_logs (start (store_with ''kb'' ''docs'' []))
            (snd (add_files (store_remote [''a.txt'', ''b.txt'']) example_manager ''kb''
                    [''a.txt'', ''b.txt'']
                    (MetadataList [example_metadata (Some []), example_metadata (Some ''u'')])
                    (start (store_with ''kb'' ''docs'' [])))))
   \<and> fst (add_files (store_remote [''a.txt'', ''b.txt'']) example_manager ''kb''
                    [''a.txt'', ''b.txt'']
                    (MetadataList [example_metadata (Some []), example_metadata (Some ''u'')])
                    (start (store_with ''kb'' ''docs'' [])))
       = fst (add_files (store_remote [''a.txt'', ''b.txt'']) example_manager ''kb''
                    [''b.txt''] (MetadataList [example_metadata (Some ''u'')])
                    (start (store_with ''kb'' ''docs'' [])))"
proof -
  have h1: "(''a.txt'', example_metadata (Some []))
      \<in> set (zip [''a.txt'', ''b.txt''] [example_metadata (Some []), example_metadata (Some ''u'')])"
    by simp
  have h2: "\<not> truthy (url (metadata (example_metadata (Some []))))"
    by (simp add: truthy_def example_metadata_def)
  have f: "filter (\<lambda>d. truthy (url (metadata (snd d))))
             (zip [''a.txt'', ''b.txt''] [example_metadata (Some []), example_metadata (Some ''u'')])
           = [(''b.txt'', example_metadata (Some ''u''))]"
    by (simp add: truthy_def example_metadata_def)
  show ?thesis
    using add_files_skips_falsy_url [OF h1 h2, of "''a.txt''" "Some ''id-''"
        "start (store_with ''kb'' ''docs'' [])" "store_remote [''a.txt'', ''b.txt'']"
        example_manager "''kb''"]
    unfolding f by simp
qed

subsection \<open>\<open>add_files\<close>: documents already in the knowledge base\<close>

lemma range_from_one: "0 < k \<Longrightarrow> range_from 0 (Suc 0) k = [0]"
  by (simp add: range_from.simps)

lemma range_from_none: "range_from 0 0 k = []"
  by (simp add: range_from.simps)

lemma add_files_one_new:
  assumes bs: "1 \<le> batch_size self"
    and g0: "serve env (GetKnowledge kid) (world s) = (r0, w0)"
    and new: "is_new (set (existing_urls (if status r0 = 200 then body_files r0 else []))) (p, m)"
    and ex: "path_exists env p"
    and up: "serve env (UploadFile p (Some m)) w0 = (r1, w1)" "status r1 = 200"
      "body_id r1 = Some fid" "fid \<noteq> []"
    and at: "serve env (BatchAddFiles kid [fid]) w1 = (r2, w2)" "status r2 = 200"
  shows "fst (add_files env self kid [p] (MetadataList [m]) s)
           = Inr [[(''success'', PBool True),
                   (''result'', PDict [(''id'', PStr fid),
                                       (''batch_result'', PJson (body_text r2))])]]"
    and "world (snd (add_files env self kid [p] (MetadataList [m]) s)) = w2"
proof -
  obtain B where B: "nat (batch_size self) = Suc B" "batch_size self \<noteq> 0" "\<not> batch_size self < 0"
    using bs by (cases "nat (batch_size self)") auto
  have "fst (add_files env self kid [p] (MetadataList [m]) s)
           = Inr [[(''success'', PBool True),
                   (''result'', PDict [(''id'', PStr fid),
                                       (''batch_result'', PJson (body_text r2))])]]
    \<and> world (snd (add_files env self kid [p] (MetadataList [m]) s)) = w2"
  proof (cases "status r0 = 200")
    case True
    then show ?thesis
      using new B ex up at g0
      by (simp add: add_files_def retrieve_files_in_knowledge_def send_def is_new_def
            py_range_def range_from_one upload_files_batch_def send_file_def
            add_files_to_kb_batch_def truthy_def)
  next
    case False
    then show ?thesis
      using new B ex up at g0
      by (simp add: add_files_def retrieve_files_in_knowledge_def send_def is_new_def
            py_range_def range_from_one upload_files_batch_def send_file_def
            add_files_to_kb_batch_def truthy_def log_record_def)
  qed
  then show "fst (add_files env self kid [p] (MetadataList [m]) s)
           = Inr [[(''success'', PBool True),
                   (''result'', PDict [(''id'', PStr fid),
                                       (''batch_result'', PJson (body_text r2))])]]"
    and "world (snd (add_files env self kid [p] (MetadataList [m]) s)) = w2"
    by simp_all
qed

lemma add_files_one_present:
  assumes bs: "1 \<le> batch_size self"
    and g: "serve env (GetKnowledge kid) (world s) = (r3, w3)" "status r3 = 200"
    and pr: "url (metadata m) \<in> set (existing_urls (body_files r3))"
  shows "fst (add_files env self kid [p] (MetadataList [m]) s) = Inr []"
    and "new_logs s (snd (add_files env self kid [p] (MetadataList [m]) s)) = [skip_warning p]"
    and "new_calls s (snd (add_files env self kid [p] (MetadataList [m]) s))
           = [(GetKnowledge kid, r3)]"
  using assms
  by (simp_all add: add_files_def retrieve_files_in_knowledge_def send_def
        py_range_def range_from_none log_record_def new_logs_def new_calls_def skip_warning_def)

text \<open>
  Claim C4. For every document given to \<open>add_files\<close> whose url is among the urls of
  the files retrieved from the knowledge base: no upload request carries the document's
  metadata, the warning is logged for it, and the document is left out of the results
  altogether (no failure record): the call returns what it returns on the other
  documents alone, with the same requests. Consequently, with a batch size of at least
  1: when a first call for one new document uploads and attaches it with success (one
  success record), and the store then lists a file with the document's url, the second
  call for the same document returns no result and logs the warning.
\<close>

theorem add_files_skips_present_url:
  "((p, m) \<in> set (zip file_paths mds)
      \<and> url (metadata m) \<in> set (existing_urls (fst (retrieve_files_in_knowledge env kid s))) \<longrightarrow>
      (q, Some m, i) \<notin> set (upload_calls (new_calls s
            (snd (add_files env self kid file_paths (MetadataList mds) s))))
      \<and> skip_warning p \<in> set (new_logs s
            (snd (add_files env self kid file_paths (MetadataList mds) s)))
      \<and> fst (add_files env self kid
              (map fst (filter (\<lambda>d. url (metadata (snd d))
                   \<notin> set (existing_urls (fst (retrieve_files_in_knowledge env kid s))))
                 (zip file_paths mds)))
              (MetadataList
                 (map snd (filter (\<lambda>d. url (metadata (snd d))
                   \<notin> set (existing_urls (fst (retrieve_files_in_knowledge env kid s))))
                 (zip file_paths mds)))) s)
           = fst (add_files env self kid file_paths (MetadataList mds) s)
      \<and> same_remote
           (snd (add_files env self kid
              (map fst (filter (\<lambda>d. url (metadata (snd d))
                   \<notin> set (existing_urls (fst (retrieve_files_in_knowledge env kid s))))
                 (zip file_paths mds)))
              (MetadataList
                 (map snd (filter (\<lambda>d. url (metadata (snd d))
                   \<notin> set (existing_urls (fst (retrieve_files_in_knowledge env kid s))))
                 (zip file_paths mds)))) s))
           (snd (add_files env self kid file_paths (MetadataList mds) s)))
   \<and> (1 \<le> batch_size self
        \<and> serve env (GetKnowledge kid) (world s) = (ra, wa)
        \<and> is_new (set (existing_urls (if status ra = 200 then body_files ra else []))) (p, m)
        \<and> path_exists env p
        \<and> serve env (UploadFile p (Some m)) wa = (rb, wb) \<and> status rb = 200
        \<and> body_id rb = Some fid \<and> fid \<noteq> []
        \<and> serve env (BatchAddFiles kid [fid]) wb = (rc, wc) \<and> status rc = 200
        \<and> serve env (GetKnowledge kid) wc = (rd, wd) \<and> status rd = 200
        \<and> url (metadata m) \<in> set (existing_urls (body_files rd)) \<longrightarrow>
        fst (add_files env self kid [p] (MetadataList [m]) s)
          = Inr [[(''success'', PBool True),
                  (''result'', PDict [(''id'', PStr fid),
                                      (''batch_result'', PJson (body_text rc))])]]
        \<and> fst (add_files env self kid [p] (MetadataList [m])
                 (snd (add_files env self kid [p] (MetadataList [m]) s))) = Inr []
        \<and> new_logs (snd (add_files env self kid [p] (MetadataList [m]) s))
             (snd (add_files env self kid [p] (MetadataList [m])
                 (snd (add_files env self kid [p] (MetadataList [m]) s)))) = [skip_warning p])"
proof (intro conjI impI)
  assume h: "(p, m) \<in> set (zip file_paths mds)
      \<and> url (metadata m) \<in> set (existing_urls (fst (retrieve_files_in_knowledge env kid s)))"
  then have n: "\<not> is_new (set (existing_urls (fst (retrieve_files_in_knowledge env kid s)))) (p, m)"
    by (simp add: is_new_def)
  from h have d: "(p, m) \<in> set (zip file_paths mds)" by simp
  note f = add_files_filter [of file_paths mds env kid s
      "\<lambda>d. url (metadata (snd d))
          \<notin> set (existing_urls (fst (retrieve_files_in_knowledge env kid s)))" self,
      unfolded is_new_def]
  show "(q, Some m, i) \<notin> set (upload_calls (new_calls s
            (snd (add_files env self kid file_paths (MetadataList mds) s))))"
    by (rule add_files_no_upload [OF n])
  show "skip_warning p \<in> set (new_logs s
            (snd (add_files env self kid file_paths (MetadataList mds) s)))"
    by (rule add_files_warning [OF d n])
  show "fst (add_files env self kid
              (map fst (filter (\<lambda>d. url (metadata (snd d))
                   \<notin> set (existing_urls (fst (retrieve_files_in_knowledge env kid s))))
                 (zip file_paths mds)))
              (MetadataList
                 (map snd (filter (\<lambda>d. url (metadata (snd d))
                   \<notin> set (existing_urls (fst (retrieve_files_in_knowledge env kid s))))
                 (zip file_paths mds)))) s)
           = fst (add_files env self kid file_paths (MetadataList mds) s)"
    using f by simp
  show "same_remote
           (snd (add_files env self kid
              (map fst (filter (\<lambda>d. url (metadata (snd d))
                   \<notin> set (existing_urls (fst (retrieve_files_in_knowledge env kid s))))
                 (zip file_paths mds)))
              (MetadataList
                 (map snd (filter (\<lambda>d. url (metadata (snd d))
                   \<notin> set (existing_urls (fst (retrieve_files_in_knowledge env kid s))))
                 (zip file_paths mds)))) s))
           (snd (add_files env self kid file_paths (MetadataList mds) s))"
    using f by simp
next
  assume h: "1 \<le> batch_size self
        \<and> serve env (GetKnowledge kid) (world s) = (ra, wa)
        \<and> is_new (set (existing_urls (if status ra = 200 then body_files ra else []))) (p, m)
        \<and> path_exists env p
        \<and> serve env (UploadFile p (Some m)) wa = (rb, wb) \<and> status rb = 200
        \<and> body_id rb = Some fid \<and> fid \<noteq> []
        \<and> serve env (BatchAddFiles kid [fid]) wb = (rc, wc) \<and> status rc = 200
        \<and> serve env (GetKnowledge kid) wc = (rd, wd) \<and> status rd = 200
        \<and> url (metadata m) \<in> set (existing_urls (body_files rd))"
  from h have bs: "1 \<le> batch_size self"
    and ga: "serve env (GetKnowledge kid) (world s) = (ra, wa)"
    and nw: "is_new (set (existing_urls (if status ra = 200 then body_files ra else []))) (p, m)"
    and ex: "path_exists env p"
    and ub: "serve env (UploadFile p (Some m)) wa = (rb, wb)" "status rb = 200"
      "body_id rb = Some fid" "fid \<noteq> []"
    and ac: "serve env (BatchAddFiles kid [fid]) wb = (rc, wc)" "status rc = 200"
    and gd: "serve env (GetKnowledge kid) wc = (rd, wd)" "status rd = 200"
      "url (metadata m) \<in> set (existing_urls (body_files rd))"
    by simp_all
  note one = add_files_one_new [OF bs ga nw ex ub ac]
  have first: "fst (add_files env self kid [p] (MetadataList [m]) s)
          = Inr [[(''success'', PBool True),
                  (''result'', PDict [(''id'', PStr fid),
                                      (''batch_result'', PJson (body_text rc))])]]"
    and w: "world (snd (add_files env self kid [p] (MetadataList [m]) s)) = wc"
    using one by simp_all
  show "fst (add_files env self kid [p] (MetadataList [m]) s)
          = Inr [[(''success'', PBool True),
                  (''result'', PDict [(''id'', PStr fid),
                                      (''batch_result'', PJson (body_text rc))])]]"
    by (rule first)
  have g: "serve env (GetKnowledge kid)
             (world (snd (add_files env self kid [p] (MetadataList [m]) s))) = (rd, wd)"
    using gd w by simp
  show "fst (add_files env self kid [p] (MetadataList [m])
                 (snd (add_files env self kid [p] (MetadataList [m]) s))) = Inr []"
    by (rule add_files_one_present(1) [OF bs g gd(2,3)])
  show "new_logs (snd (add_files env self kid [p] (MetadataList [m]) s))
             (snd (add_files env self kid [p] (MetadataList [m])
                 (snd (add_files env self kid [p] (MetadataList [m]) s)))) = [skip_warning p]"
    by (rule add_files_one_present(2) [OF bs g gd(2,3)])
qed


theorem add_files_skips_present_url_witness:
  "fst (add_files (store_remote [''a.txt'']) example_manager ''kb'' [''a.txt'']
          (MetadataList [example_metadata (Some ''u'')]) (start (store_with ''kb'' ''docs'' [])))
     = Inr [[(''success'', PBool True),
             (''result'', PDict [(''id'', PStr ''id-''), (''batch_result'', PJson ''{}'')])]]
   \<and> fst (add_files (store_remote [''a.txt'']) example_manager ''kb'' [''a.txt'']
          (MetadataList [example_metadata (Some ''u'')])
          (snd (add_files (store_remote [''a.txt'']) example_manager ''kb'' [''a.txt'']
             (MetadataList [example_metadata (Some ''u'')])
             (start (store_with ''kb'' ''docs'' []))))) = Inr []
   \<and> new_logs
        (snd (add_files (store_remote [''a.txt'']) example_manager ''kb'' [''a.txt'']
             (MetadataList [example_metadata (Some ''u'')])
             (start (store_with ''kb'' ''docs'' []))))
        (snd (add_files (store_remote [''a.txt'']) example_manager ''kb'' [''a.txt'']
          (MetadataList [example_metadata (Some ''u'')])
          (snd (add_files (store_remote [''a.txt'']) example_manager ''kb'' [''a.txt'']
             (MetadataList [example_metadata (Some ''u'')])
             (start (store_with ''kb'' ''docs'' []))))))
       = [skip_warning ''a.txt'']
   \<and> skip_warning ''a.txt''
       \<in> set (new_logs (start (store_with ''kb'' ''docs'' [example_file ''f1'' (Some ''u'')]))
            (snd (add_files (store_remote [''a.txt'']) example_manager ''kb'' [''a.txt'']
                    (MetadataList [example_metadata (Some ''u'')])
                    (start (store_with ''kb'' ''docs'' [example_file ''f1'' (Some ''u'')])))))
   \<and> fst (add_files (store_remote [''a.txt'']) example_manager ''kb'' [] (MetadataList [])
            (start (store_with ''kb'' ''docs'' [example_file ''f1'' (Some ''u'')])))
       = fst (add_files (store_remote [''a.txt'']) example_manager ''kb'' [''a.txt'']
                    (MetadataList [example_metadata (Some ''u'')])
                    (start (store_with ''kb'' ''docs'' [example_file ''f1'' (Some ''u'')])))"
proof -
  define env where "env = store_remote [''a.txt'']"
  define md where "md = example_metadata (Some ''u'')"
  define s where "s = start (store_with ''kb'' ''docs'' [])"
  define t where "t = start (store_with ''kb'' ''docs'' [example_file ''f1'' (Some ''u'')])"
  define ra where "ra = fst (serve env (GetKnowledge ''kb'') (world s))"
  define wa where "wa = snd (serve env (GetKnowledge ''kb'') (world s))"
  define rb where "rb = fst (serve env (UploadFile ''a.txt'' (Some md)) wa)"
  define wb where "wb = snd (serve env (UploadFile ''a.txt'' (Some md)) wa)"
  define rc where "rc = fst (serve env (BatchAddFiles ''kb'' [''id-'']) wb)"
  define wc where "wc = snd (serve env (BatchAddFiles ''kb'' [''id-'']) wb)"
  define rd where "rd = fst (serve env (GetKnowledge ''kb'') wc)"
  define wd where "wd = snd (serve env (GetKnowledge ''kb'') wc)"
  have wa: "wa = store_with ''kb'' ''docs'' []" and ra: "status ra = 200" "body_files ra = []"
    unfolding wa_def ra_def env_def s_def by (simp_all add: store_eval)
  have wb: "wb = \<lparr>bases = [\<lparr>s_id = ''kb'', s_name = ''docs'', s_files = []\<rparr>],
                   uploaded = [\<lparr>id_f = ''id-'', meta = Some md, created_at = 0, updated_at = 0\<rparr>],
                   next_id = 1\<rparr>"
    and rb: "status rb = 200" "body_id rb = Some ''id-''"
    unfolding wb_def rb_def env_def wa by (simp_all add: store_eval)
  have wc: "wc = \<lparr>bases = [\<lparr>s_id = ''kb'', s_name = ''docs'',
                     s_files = [\<lparr>id_f = ''id-'', meta = Some md, created_at = 0, updated_at = 0\<rparr>]\<rparr>],
                   uploaded = [\<lparr>id_f = ''id-'', meta = Some md, created_at = 0, updated_at = 0\<rparr>],
                   next_id = 1\<rparr>"
    and rc: "status rc = 200" "body_text rc = ''{}''"
    unfolding wc_def rc_def env_def wb by (simp_all add: store_eval List.map_filter_simps)
  have rd: "status rd = 200"
      "body_files rd = [\<lparr>id_f = ''id-'', meta = Some md, created_at = 0, updated_at = 0\<rparr>]"
    unfolding rd_def env_def wc by (simp_all add: store_eval)
  have hb: "1 \<le> batch_size example_manager
        \<and> serve env (GetKnowledge ''kb'') (world s) = (ra, wa)
        \<and> is_new (set (existing_urls (if status ra = 200 then body_files ra else [])))
             (''a.txt'', md)
        \<and> path_exists env ''a.txt''
        \<and> serve env (UploadFile ''a.txt'' (Some md)) wa = (rb, wb) \<and> status rb = 200
        \<and> body_id rb = Some ''id-'' \<and> ''id-'' \<noteq> []
        \<and> serve env (BatchAddFiles ''kb'' [''id-'']) wb = (rc, wc) \<and> status rc = 200
        \<and> serve env (GetKnowledge ''kb'') wc = (rd, wd) \<and> status rd = 200
        \<and> url (metadata md) \<in> set (existing_urls (body_files rd))"
  proof -
    have bsz: "1 \<le> batch_size example_manager" by (simp add: example_manager_def)
    have p1: "serve env (GetKnowledge ''kb'') (world s) = (ra, wa)" by (simp add: ra_def wa_def)
    have p2: "serve env (UploadFile ''a.txt'' (Some md)) wa = (rb, wb)" by (simp add: rb_def wb_def)
    have p3: "serve env (BatchAddFiles ''kb'' [''id-'']) wb = (rc, wc)" by (simp add: rc_def wc_def)
    have p4: "serve env (GetKnowledge ''kb'') wc = (rd, wd)" by (simp add: rd_def wd_def)
    have nw: "is_new (set (existing_urls (if status ra = 200 then body_files ra else [])))
             (''a.txt'', md)"
      using ra by (simp add: is_new_def existing_urls_def md_def example_metadata_def truthy_def)
    have ex: "path_exists env ''a.txt''" by (simp add: env_def store_remote_def)
    have pr: "url (metadata md) \<in> set (existing_urls (body_files rd))"
      using rd by (simp add: existing_urls_def md_def example_metadata_def)
    show ?thesis using bsz p1 p2 p3 p4 nw ex pr ra rb rc rd by simp
  qed
  have ha: "(''a.txt'', md) \<in> set (zip [''a.txt''] [md])
      \<and> url (metadata md) \<in> set (existing_urls (fst (retrieve_files_in_knowledge env ''kb'' t)))"
    unfolding env_def t_def md_def
    by (simp add: retrieve_files_in_knowledge_def existing_urls_def store_eval)
  have fa: "filter (\<lambda>d. url (metadata (snd d))
                   \<notin> set (existing_urls (fst (retrieve_files_in_knowledge env ''kb'' t))))
                 (zip [''a.txt''] [md]) = []"
    using ha by simp
  show ?thesis
    using add_files_skips_present_url [where env = env and self = example_manager
        and kid = "''kb''" and s = s and p = "''a.txt''" and m = md and ra = ra and wa = wa
        and rb = rb and wb = wb and fid = "''id-''" and rc = rc and wc = wc and rd = rd
        and wd = wd and file_paths = "[]" and mds = "[]"] hb
      add_files_skips_present_url [where env = env and self = example_manager
        and kid = "''kb''" and s = t and p = "''a.txt''" and m = md
        and file_paths = "[''a.txt'']" and mds = "[md]"] ha
    unfolding fa
    by (simp add: rc env_def [symmetric] md_def [symmetric] s_def [symmetric] t_def [symmetric])
qed

subsection \<open>\<open>add_files\<close>: the batches\<close>

lemma range_from_lt: "j \<in> set (range_from i n k) \<Longrightarrow> j < n"
proof (induction i n k rule: range_from.induct)
  case (1 i n k)
  then show ?case
    by (subst (asm) (2) range_from.simps) (auto split: if_splits)
qed

lemma range_from_length: "0 < k \<Longrightarrow> length (range_from i n k) = (n - i + k - 1) div k"
proof (induction i n k rule: range_from.induct)
  case (1 i n k)
  show ?case
  proof (cases "n \<le> i")
    case True
    then show ?thesis using "1.prems" by (subst range_from.simps) simp
  next
    case False
    then have ih: "length (range_from (i + k) n k) = (n - (i + k) + k - 1) div k"
      using 1 by simp
    have "(n - i + k - 1) div k = Suc ((n - (i + k) + k - 1) div k)"
    proof (cases "n - i \<le> k")
      case True
      then have "n - (i + k) = 0" by simp
      moreover have "(n - i + k - 1) div k = 1"
      proof -
        have "k \<le> n - i + k - 1" "n - i + k - 1 < 2 * k" using False True "1.prems" by auto
        then show ?thesis
          by (metis One_nat_def Suc_1 div_nat_eqI mult.commute mult_1)
      qed
      ultimately show ?thesis using "1.prems" by simp
    next
      case f: False
      define a where "a = n - (i + k) + k - 1"
      have e: "n - i + k - 1 = a + k" using f unfolding a_def by arith
      have "(a + k) div k = Suc (a div k)"
        using "1.prems" div_add_self2 [of k a] by simp
      then show ?thesis unfolding e a_def .
    qed
    then show ?thesis using False "1.prems" ih by (subst range_from.simps) simp
  qed
qed

lemma range_from_concat:
  "0 < k \<Longrightarrow> n = length xs \<Longrightarrow>
     concat (map (\<lambda>j. take k (drop j xs)) (range_from i n k)) = drop i xs"
proof (induction i n k rule: range_from.induct)
  case (1 i n k)
  show ?case
  proof (cases "n \<le> i")
    case True
    then show ?thesis using "1.prems" by (subst range_from.simps) simp
  next
    case False
    then have ih: "concat (map (\<lambda>j. take k (drop j xs)) (range_from (i + k) n k)) = drop (i + k) xs"
      using 1 by simp
    have "take k (drop i xs) @ drop (i + k) xs = drop i xs"
      by (metis add.commute append_take_drop_id drop_drop)
    then show ?thesis using False "1.prems" ih by (subst range_from.simps) simp
  qed
qed

lemma gather_succeeds:
  assumes ex: "\<forall>t \<in> set tasks. path_exists env (fst t)"
    and succ: "\<And>p md w. status (fst (serve env (UploadFile p md) w)) = 200
                 \<and> truthy (body_id (fst (serve env (UploadFile p md) w)))"
  shows "fst (gather env tasks s)
           = map (\<lambda>(q, m, i). i) (upload_calls (new_calls s (snd (gather env tasks s))))
   \<and> filter truthy (fst (gather env tasks s)) = fst (gather env tasks s)
   \<and> length (fst (gather env tasks s)) = length tasks"
  using ex
proof (induction tasks arbitrary: s)
  case Nil
  then show ?case by (simp add: extends_refl)
next
  case (Cons a tasks)
  obtain p md where a: "a = (p, md)" by (cases a)
  have pe: "path_exists env p" using Cons.prems a by simp
  obtain rp w where sv: "serve env (UploadFile p md) (world s) = (rp, w)"
    by (cases "serve env (UploadFile p md) (world s)")
  have ok: "status rp = 200" "truthy (body_id rp)"
    using succ [of p md "world s"] sv by simp_all
  obtain fid s1 where sf: "send_file env p md s = (fid, s1)" by (cases "send_file env p md s")
  have f1: "fid = body_id rp" "extends s s1" "new_calls s s1 = [(UploadFile p md, rp)]"
    using send_file_sent [OF pe sv] ok sf by simp_all
  obtain fids s2 where g: "gather env tasks s1 = (fids, s2)" by (cases "gather env tasks s1")
  have tl: "\<forall>t \<in> set tasks. path_exists env (fst t)" using Cons.prems by simp
  have ih: "fids = map (\<lambda>(q, m, i). i) (upload_calls (new_calls s1 s2))"
    "filter truthy fids = fids" "length fids = length tasks"
    using Cons.IH [OF tl, of s1] unfolding g fst_conv snd_conv by blast+
  have e2: "extends s1 s2" using gather_effect [of s1 env tasks] g by simp
  have r: "gather env ((p, md) # tasks) s = (fid # fids, s2)"
    by (simp add: sf g)
  have nc: "new_calls s s2 = (UploadFile p md, rp) # new_calls s1 s2"
    using extends_trans(2) [OF f1(2) e2] f1(3) by simp
  show ?case
    unfolding a r using ih f1(1) ok(2) by (simp add: nc upload_calls_def)
qed

lemma upload_files_batch_succeeds:
  assumes len: "length ps = length mds"
    and ex: "\<forall>p \<in> set ps. path_exists env p"
    and succ: "\<And>p md w. status (fst (serve env (UploadFile p md) w)) = 200
                 \<and> truthy (body_id (fst (serve env (UploadFile p md) w)))"
  shows "fst (upload_files_batch env ps mds s)
           = Inr (map (\<lambda>(q, m, i). the i)
                    (upload_calls (new_calls s (snd (upload_files_batch env ps mds s)))))
   \<and> map (\<lambda>(q, m, i). (q, m)) (upload_calls (new_calls s (snd (upload_files_batch env ps mds s))))
       = map (\<lambda>(p, m). (p, Some m)) (zip ps mds)
   \<and> attach_calls (new_calls s (snd (upload_files_batch env ps mds s))) = []
   \<and> extends s (snd (upload_files_batch env ps mds s))"
proof -
  let ?tasks = "map (\<lambda>(p, m). (p, Some m)) (zip ps mds)"
  have t: "upload_tasks ps mds 0 = Inr ?tasks"
    using upload_tasks_zip [of ps 0 mds] len by (simp add: zip_Some_docs)
  have ex': "\<forall>t \<in> set ?tasks. path_exists env (fst t)"
    using ex by (auto dest: set_zip_leftD)
  have sn: "snd (upload_files_batch env ps mds s) = snd (gather env ?tasks s)"
    by (simp add: upload_files_batch_def t case_prod_beta)
  have fs: "fst (upload_files_batch env ps mds s)
              = Inr (map the (filter truthy (fst (gather env ?tasks s))))"
    by (simp add: upload_files_batch_def t case_prod_beta)
  note g = gather_succeeds [of ?tasks env s, OF ex' succ]
  note ge = gather_effect [of s env ?tasks]
  have all: "filter (\<lambda>(q, m). path_exists env q) ?tasks = ?tasks"
    using ex' by (intro filter_True) (auto simp: case_prod_beta)
  define G where "G = fst (gather env ?tasks s)"
  define U where "U = upload_calls (new_calls s (snd (gather env ?tasks s)))"
  have g1: "G = map (\<lambda>(q, m, i). i) U" and g2: "filter truthy G = G"
    using g unfolding G_def U_def by blast+
  have "map the (filter truthy G) = map the (map (\<lambda>(q, m, i). i) U)"
    unfolding g2 using g1 by simp
  also have "\<dots> = map (\<lambda>(q, m, i). the i) U"
    by (simp add: case_prod_beta)
  finally have ids: "map the (filter truthy G) = map (\<lambda>(q, m, i). the i) U" .
  have u: "map (\<lambda>(q, m, i). (q, m)) U = ?tasks" "attach_calls (new_calls s (snd (gather env ?tasks s))) = []"
    "extends s (snd (gather env ?tasks s))"
    using ge all unfolding U_def by simp_all
  show ?thesis
    unfolding sn fs using ids u unfolding G_def U_def by simp
qed

lemma add_batches_succeeds:
  assumes len: "length P = length M" and bs: "0 < bs"
    and st: "\<forall>j \<in> set starts. j < length P"
    and ex: "\<forall>p \<in> set P. path_exists env p"
    and succ: "\<And>p md w. status (fst (serve env (UploadFile p md) w)) = 200
                 \<and> truthy (body_id (fst (serve env (UploadFile p md) w)))"
  shows "map length (attach_calls (new_calls s (snd (add_batches env kid P M bs starts s))))
           = map (\<lambda>j. length (take bs (drop j P))) starts
   \<and> concat (attach_calls (new_calls s (snd (add_batches env kid P M bs starts s))))
       = map (\<lambda>(q, m, i). the i)
           (upload_calls (new_calls s (snd (add_batches env kid P M bs starts s))))
   \<and> map (\<lambda>(q, m, i). (q, m))
         (upload_calls (new_calls s (snd (add_batches env kid P M bs starts s))))
       = map (\<lambda>(p, m). (p, Some m)) (concat (map (\<lambda>j. take bs (drop j (zip P M))) starts))"
  using st
proof (induction starts arbitrary: s)
  case Nil
  then show ?case by (simp add: extends_refl)
next
  case (Cons i starts)
  let ?ps = "take bs (drop i P)" and ?ms = "take bs (drop i M)"
  have i: "i < length P" and tl: "\<forall>j \<in> set starts. j < length P" using Cons.prems by simp_all
  have lenb: "length ?ps = length ?ms" using len by simp
  have exb: "\<forall>p \<in> set ?ps. path_exists env p"
    using ex by (auto dest!: in_set_takeD in_set_dropD)
  have pos: "0 < length ?ps" using i bs by simp
  obtain r s1 where us: "upload_files_batch env ?ps ?ms s = (r, s1)"
    by (cases "upload_files_batch env ?ps ?ms s")
  define ids where "ids = map (\<lambda>(q, m, i). the i) (upload_calls (new_calls s s1))"
  have u: "r = Inr ids"
    "map (\<lambda>(q, m, i). (q, m)) (upload_calls (new_calls s s1))
       = map (\<lambda>(p, m). (p, Some m)) (take bs (drop i (zip P M)))"
    "attach_calls (new_calls s s1) = []" "extends s s1"
    using upload_files_batch_succeeds [OF lenb exb succ, of s] us
    unfolding ids_def by (simp_all add: take_drop_zip)
  have "length ids = length (map (\<lambda>(q, m, i). (q, m)) (upload_calls (new_calls s s1)))"
    unfolding ids_def by simp
  also have "\<dots> = length ?ps" unfolding u(2) using len by simp
  finally have lid: "length ids = length ?ps" .
  then have ne: "ids \<noteq> []" using pos by auto
  obtain b s2 where as: "add_files_to_kb_batch env kid ids s1 = (b, s2)"
    by (cases "add_files_to_kb_batch env kid ids s1")
  have a: "extends s1 s2" "upload_calls (new_calls s1 s2) = []"
    "attach_calls (new_calls s1 s2) = [ids]"
    using add_files_to_kb_batch_effect [of s1 env kid ids] as ne by simp_all
  obtain q s3 where rs: "add_batches env kid P M bs starts s2 = (q, s3)"
    by (cases "add_batches env kid P M bs starts s2")
  have ih: "map length (attach_calls (new_calls s2 s3))
           = map (\<lambda>j. length (take bs (drop j P))) starts"
    "concat (attach_calls (new_calls s2 s3))
       = map (\<lambda>(q, m, i). the i) (upload_calls (new_calls s2 s3))"
    "map (\<lambda>(q, m, i). (q, m)) (upload_calls (new_calls s2 s3))
       = map (\<lambda>(p, m). (p, Some m)) (concat (map (\<lambda>j. take bs (drop j (zip P M))) starts))"
    using Cons.IH [OF tl, of s2] unfolding rs snd_conv by blast+
  have e3: "extends s2 s3"
    using add_batches_effect [OF len, of env kid bs starts s2] rs by simp
  have as': "(if ids \<noteq> [] then add_files_to_kb_batch env kid ids s1 else ([], s1)) = (b, s2)"
    using ne as by simp
  have res: "snd (add_batches env kid P M bs (i # starts) s) = s3"
    using add_batches_Cons_Inr [OF us [unfolded u(1)] as' rs] by (simp split: sum.splits)
  note t12 = extends_trans [OF u(4) a(1)]
  note t13 = extends_trans [OF t12(1) e3]
  have nc: "new_calls s s3 = new_calls s s1 @ new_calls s1 s2 @ new_calls s2 s3"
    using t13(2) t12(2) by simp
  show ?case
    unfolding res nc using u(2,3) a(2,3) ih lid by (simp add: ids_def)
qed

text \<open>
  Claim C5. For every batch size \<open>B \<ge> 1\<close> and every input of \<open>N\<close> documents that
  are all new (truthy urls, none among the urls of the knowledge base), when every local
  file exists and every upload is answered with the status 200 and an id: \<open>add_files\<close>
  sends exactly \<open>\<lceil>N / B\<rceil>\<close> batch-attach requests, each with at most \<open>B\<close> file
  ids; the ids of the attach requests, concatenated, are the ids the uploads returned,
  in the order of the uploads; the uploads are those of the documents in the order of the
  input; so the attach requests carry \<open>N\<close> ids in all. (The urls need not be distinct:
  the call compares them with the knowledge base only.)
\<close>

theorem add_files_batch_calls:
  assumes bs: "1 \<le> batch_size self"
    and new: "\<forall>d \<in> set (zip file_paths mds).
        is_new (set (existing_urls (fst (retrieve_files_in_knowledge env kid s)))) d"
    and ex: "\<forall>p \<in> set file_paths. path_exists env p"
    and succ: "\<forall>p md w. status (fst (serve env (UploadFile p md) w)) = 200
                 \<and> truthy (body_id (fst (serve env (UploadFile p md) w)))"
  shows "length (attach_calls (new_calls s
            (snd (add_files env self kid file_paths (MetadataList mds) s))))
           = (length (zip file_paths mds) + nat (batch_size self) - 1) div nat (batch_size self)
   \<and> (\<forall>ids \<in> set (attach_calls (new_calls s
            (snd (add_files env self kid file_paths (MetadataList mds) s)))).
          length ids \<le> nat (batch_size self))
   \<and> concat (attach_calls (new_calls s
            (snd (add_files env self kid file_paths (MetadataList mds) s))))
       = map (\<lambda>(q, m, i). the i) (upload_calls (new_calls s
            (snd (add_files env self kid file_paths (MetadataList mds) s))))
   \<and> map (\<lambda>(q, m, i). (q, m)) (upload_calls (new_calls s
            (snd (add_files env self kid file_paths (MetadataList mds) s))))
       = map (\<lambda>(p, m). (p, Some m)) (zip file_paths mds)
   \<and> length (concat (attach_calls (new_calls s
            (snd (add_files env self kid file_paths (MetadataList mds) s)))))
       = length (zip file_paths mds)"
proof -
  define docs where "docs = zip file_paths mds"
  define B where "B = nat (batch_size self)"
  define E where "E = set (existing_urls (fst (retrieve_files_in_knowledge env kid s)))"
  define s1 where "s1 = snd (retrieve_files_in_knowledge env kid s)"
  define s2 where "s2 = snd (select_uploads E docs s1)"
  define starts where "starts = range_from 0 (length docs) B"
  define s3 where "s3 = snd (add_batches env kid (map fst docs) (map snd docs) B starts s2)"
  have Bpos: "0 < B" using bs unfolding B_def by simp
  have sel: "filter (is_new E) docs = docs"
    using new unfolding E_def docs_def by (intro filter_True) simp
  have pr: "py_range (length docs) (batch_size self) = Inr starts"
    using bs unfolding py_range_def starts_def B_def by simp
  have al: "add_files env self kid file_paths (MetadataList mds) s
              = add_batches env kid (map fst docs) (map snd docs) B starts s2"
    unfolding add_files_list
    unfolding E_def [symmetric] docs_def [symmetric] s1_def [symmetric] sel pr s2_def B_def
    by simp
  have s3: "snd (add_files env self kid file_paths (MetadataList mds) s) = s3"
    unfolding al s3_def ..
  have e1: "extends s s1" "upload_calls (new_calls s s1) = []" "attach_calls (new_calls s s1) = []"
    using retrieve_effect [of s env kid] unfolding s1_def by simp_all
  have e2: "extends s1 s2" "new_calls s1 s2 = []"
    unfolding s2_def by (rule select_uploads_effect)+
  have len: "length (map fst docs) = length (map snd docs)" by simp
  have z: "zip (map fst docs) (map snd docs) = docs" by (simp add: zip_map_fst_snd)
  have e3: "extends s2 s3"
    using add_batches_effect [OF len, of env kid B starts s2] unfolding s3_def by simp
  have st: "\<forall>j \<in> set starts. j < length (map fst docs)"
    unfolding starts_def using range_from_lt by fastforce
  have exd: "\<forall>p \<in> set (map fst docs). path_exists env p"
    using ex unfolding docs_def by (auto dest: set_zip_leftD)
  have succ': "\<And>p md w. status (fst (serve env (UploadFile p md) w)) = 200
                 \<and> truthy (body_id (fst (serve env (UploadFile p md) w)))"
    using succ by blast
  note ab = add_batches_succeeds [OF len Bpos st exd succ', where s = s2 and kid = kid,
      folded s3_def, unfolded z]
  have ab1: "map length (attach_calls (new_calls s2 s3))
               = map (\<lambda>j. length (take B (drop j (map fst docs)))) starts"
    and ab2: "concat (attach_calls (new_calls s2 s3))
               = map (\<lambda>(q, m, i). the i) (upload_calls (new_calls s2 s3))"
    and ab3: "map (\<lambda>(q, m, i). (q, m)) (upload_calls (new_calls s2 s3))
               = map (\<lambda>(p, m). (p, Some m)) (concat (map (\<lambda>j. take B (drop j docs)) starts))"
    using ab by blast+
  note t12 = extends_trans [OF e1(1) e2(1)]
  note t13 = extends_trans [OF t12(1) e3]
  have nc: "new_calls s s3 = new_calls s s1 @ new_calls s2 s3"
    using t13(2) t12(2) e2(2) by simp
  have at: "attach_calls (new_calls s s3) = attach_calls (new_calls s2 s3)"
    and up: "upload_calls (new_calls s s3) = upload_calls (new_calls s2 s3)"
    unfolding nc using e1 by simp_all
  have cc: "concat (map (\<lambda>j. take B (drop j docs)) starts) = docs"
    using range_from_concat [OF Bpos refl, of docs 0] unfolding starts_def by simp
  have "length (attach_calls (new_calls s2 s3)) = length starts"
    using ab1 by (metis length_map)
  also have "\<dots> = (length docs + B - 1) div B"
    unfolding starts_def using range_from_length [OF Bpos, of 0 "length docs"] by simp
  finally have c1: "length (attach_calls (new_calls s2 s3)) = (length docs + B - 1) div B" .
  have c2: "\<forall>ids \<in> set (attach_calls (new_calls s2 s3)). length ids \<le> B"
  proof
    fix ids assume "ids \<in> set (attach_calls (new_calls s2 s3))"
    then have "length ids \<in> set (map length (attach_calls (new_calls s2 s3)))" by simp
    then show "length ids \<le> B" unfolding ab1 by auto
  qed
  have c4: "map (\<lambda>(q, m, i). (q, m)) (upload_calls (new_calls s2 s3))
               = map (\<lambda>(p, m). (p, Some m)) docs"
    using ab3 unfolding cc .
  have "length (concat (attach_calls (new_calls s2 s3)))
          = length (map (\<lambda>(q, m, i). (q, m)) (upload_calls (new_calls s2 s3)))"
    unfolding ab2 by simp
  also have "\<dots> = length docs" unfolding c4 by simp
  finally have c5: "length (concat (attach_calls (new_calls s2 s3))) = length docs" .
  show ?thesis
    unfolding s3 at up docs_def [symmetric] B_def [symmetric]
    using c1 c2 ab2 c4 c5 by simp
qed

theorem add_files_batch_calls_witness:
  "length (attach_calls (new_calls (start (store_with ''kb'' ''docs'' []))
      (snd (add_files (store_remote example_paths) example_manager ''kb'' example_paths
             (MetadataList example_metadatas) (start (store_with ''kb'' ''docs'' []))))))
     = 3
   \<and> concat (attach_calls (new_calls (start (store_with ''kb'' ''docs'' []))
      (snd (add_files (store_remote example_paths) example_manager ''kb'' example_paths
             (MetadataList example_metadatas) (start (store_with ''kb'' ''docs'' []))))))
     = map (\<lambda>(q, m, i). the i) (upload_calls (new_calls (start (store_with ''kb'' ''docs'' []))
      (snd (add_files (store_remote example_paths) example_manager ''kb'' example_paths
             (MetadataList example_metadatas) (start (store_with ''kb'' ''docs'' []))))))
   \<and> map (\<lambda>(q, m, i). (q, m)) (upload_calls (new_calls (start (store_with ''kb'' ''docs'' []))
      (snd (add_files (store_remote example_paths) example_manager ''kb'' example_paths
             (MetadataList example_metadatas) (start (store_with ''kb'' ''docs'' []))))))
     = map (\<lambda>(p, m). (p, Some m)) (zip example_paths example_metadatas)
   \<and> length (concat (attach_calls (new_calls (start (store_with ''kb'' ''docs'' []))
      (snd (add_files (store_remote example_paths) example_manager ''kb'' example_paths
             (MetadataList example_metadatas) (start (store_with ''kb'' ''docs'' [])))))))
     = 7
   \<and> attach_calls (new_calls (start (store_with ''kb'' ''docs'' []))
      (snd (add_files (store_remote example_paths) example_manager ''kb'' example_paths
             (MetadataList example_metadatas) (start (store_with ''kb'' ''docs'' [])))))
     = [[''id-'', ''id-i'', ''id-ii''], [''id-iii'', ''id-iiii'', ''id-iiiii''], [''id-iiiiii'']]"
proof -
  have bs: "1 \<le> batch_size example_manager" by (simp add: example_manager_def)
  have e: "existing_urls (fst (retrieve_files_in_knowledge (store_remote example_paths) ''kb''
              (start (store_with ''kb'' ''docs'' [])))) = []"
    by (simp add: retrieve_files_in_knowledge_def existing_urls_def store_eval)
  have new: "\<forall>d \<in> set (zip example_paths example_metadatas).
        is_new (set (existing_urls (fst (retrieve_files_in_knowledge (store_remote example_paths)
           ''kb'' (start (store_with ''kb'' ''docs'' [])))))) d"
    unfolding e
    by (simp add: example_paths_def example_metadatas_def is_new_def example_metadata_def
          truthy_def)
  have ex: "\<forall>p \<in> set example_paths. path_exists (store_remote example_paths) p"
    by (simp add: store_remote_def)
  have succ: "\<forall>p md w. status (fst (serve (store_remote example_paths) (UploadFile p md) w)) = 200
       \<and> truthy (body_id (fst (serve (store_remote example_paths) (UploadFile p md) w)))"
    by (simp add: store_remote_def ok_reply_def truthy_def fresh_id_def)
  have n: "length (zip example_paths example_metadatas) = 7"
    by (simp add: example_paths_def example_metadatas_def)
  have b: "nat (batch_size example_manager) = 3" by (simp add: example_manager_def)
  have d: "(7 + 3 - 1) div 3 = (3::nat)" by simp
  note th = add_files_batch_calls [OF bs new ex succ, unfolded n b d]
  have run: "attach_calls (new_calls (start (store_with ''kb'' ''docs'' []))
      (snd (add_files (store_remote example_paths) example_manager ''kb'' example_paths
             (MetadataList example_metadatas) (start (store_with ''kb'' ''docs'' [])))))
     = [[''id-'', ''id-i'', ''id-ii''], [''id-iii'', ''id-iiii'', ''id-iiiii''], [''id-iiiiii'']]"
    by (simp add: add_files_def retrieve_files_in_knowledge_def existing_urls_def
          py_range_def range_from.simps example_manager_def example_paths_def
          example_metadatas_def upload_files_batch_def send_file_def add_files_to_kb_batch_def
          store_eval new_calls_def attach_calls_def)
  show ?thesis
    using th run by blast
qed

end
